theory Spec2Isabelle
  imports Main "HOL-Library.Word" "HOL-Library.Monad_Syntax"
begin

section \<open>mod\_accounting: per-request resource accounting\<close>

text \<open>
  A shallow embedding of \<^verbatim>\<open>mod_accounting.c\<close>. The module registers two hooks:
  \<^verbatim>\<open>module_accounting_start\<close> stores a snapshot of the clock and of the resource
  usage in the notes of the first request of a chain, \<^verbatim>\<open>module_accounting_stop\<close>
  takes a second snapshot and publishes nine differences in the notes of the last
  request of the chain.
\<close>

subsection \<open>Machine integers and the C structures\<close>

text \<open>
  \<^verbatim>\<open>long\<close>, \<^verbatim>\<open>long long\<close>, \<^verbatim>\<open>time_t\<close> and \<^verbatim>\<open>suseconds_t\<close> are 64-bit two's
  complement integers (the LP64 data model of the platforms the module is built for).
  They are words of 64 bits: \<open>+\<close>, \<open>-\<close> and \<open>*\<close> wrap around, comparisons are the
  signed ones (\<open><s\<close>), and \<open>sint\<close> reads the signed value. Where a signed operation
  of the source overflows, the model has the wrapped value, which is what the compiled
  code computes on these platforms; the C standard leaves that case undefined.
\<close>

type_synonym long = "64 word"

record timeval =
  tv_sec :: long
  tv_usec :: long

text \<open>Of \<^verbatim>\<open>struct rusage\<close> the module reads four fields only.\<close>

record rusage =
  ru_utime :: timeval
  ru_stime :: timeval
  ru_inblock :: long
  ru_oublock :: long

text \<open>
  \<^verbatim>\<open>acc_data\<close>, the block holding the reference (begin) values. The field
  \<^verbatim>\<open>zero\<close> is the terminating byte the source adds.
\<close>

record acc_data =
  begin_time :: timeval
  begin_own_usage :: rusage
  begin_child_usage :: rusage
  zero :: "8 word"

subsection \<open>The error log\<close>

text \<open>
  Every call of \<^verbatim>\<open>ap_log_error\<close> appends one entry: its level and its message.
  A message is kept as its format together with the arguments, so that the values
  a message identifies can be read back. The source defines \<^verbatim>\<open>DEBUG\<close> (as 0) and
  tests it with \<^verbatim>\<open>#ifdef\<close>, so the debug macros do call \<^verbatim>\<open>ap_log_error\<close>, at
  level \<^verbatim>\<open>APLOG_DEBUG\<close>.
\<close>

datatype log_level = APLOG_ERR | APLOG_DEBUG

datatype log_msg =
    Msg string
  | Timetraveling timeval timeval
  | Negative_blockcount long long
  | Debug_time string timeval
  | Debug_blocks string long

type_synonym log_entry = "log_level \<times> log_msg"

definition ACC_LOG_REQ_ERROR :: "string \<Rightarrow> log_entry list \<Rightarrow> log_entry list" where
  "ACC_LOG_REQ_ERROR errmsg lg = lg @ [(APLOG_ERR, Msg errmsg)]"

definition ACC_LOG_DEBUG_TIME :: "string \<Rightarrow> timeval \<Rightarrow> log_entry list \<Rightarrow> log_entry list" where
  "ACC_LOG_DEBUG_TIME msg t lg = lg @ [(APLOG_DEBUG, Debug_time msg t)]"

definition ACC_LOG_DEBUG_BLOCKS :: "string \<Rightarrow> long \<Rightarrow> log_entry list \<Rightarrow> log_entry list" where
  "ACC_LOG_DEBUG_BLOCKS msg num lg = lg @ [(APLOG_DEBUG, Debug_blocks msg num)]"

text \<open>The anomalies of a log are its entries at level \<^verbatim>\<open>APLOG_ERR\<close>.\<close>

definition anomalies :: "log_entry list \<Rightarrow> log_msg list" where
  "anomalies lg = map snd (filter (\<lambda>e. fst e = APLOG_ERR) lg)"

subsection \<open>The two differences\<close>

text \<open>
  \<^verbatim>\<open>time_difference\<close>: the log is passed in and returned. The arithmetic is
  the source's, in 64 bits: the difference of the seconds, times 1000000, plus the
  difference of the microseconds.
\<close>

definition time_difference :: "log_entry list \<Rightarrow> timeval \<Rightarrow> timeval \<Rightarrow> long \<times> log_entry list" where
  "time_difference lg begin end =
     (if tv_sec end <s tv_sec begin \<or>
         (tv_sec end = tv_sec begin \<and> tv_usec end <s tv_usec begin)
      then (0, lg @ [(APLOG_ERR, Timetraveling begin end)])
      else
        let lg1 = ACC_LOG_DEBUG_TIME ''time_difference:begin'' begin lg;
            lg2 = ACC_LOG_DEBUG_TIME ''time_difference:end'' end lg1;
            retval = tv_sec end - tv_sec begin;
            retval = retval * 1000000;
            retval = retval + (tv_usec end - tv_usec begin)
        in (retval, lg2))"

definition block_difference :: "log_entry list \<Rightarrow> long \<Rightarrow> long \<Rightarrow> long \<times> log_entry list" where
  "block_difference lg begin end =
     (if end <s begin
      then (0, lg @ [(APLOG_ERR, Negative_blockcount begin end)])
      else
        let lg1 = ACC_LOG_DEBUG_BLOCKS ''block_difference:begin'' begin lg;
            lg2 = ACC_LOG_DEBUG_BLOCKS ''block_difference:end'' end lg1;
            retval = end - begin
        in (retval, lg2))"

text \<open>The order on time values: seconds first, microseconds to break the tie.\<close>

definition time_less :: "timeval \<Rightarrow> timeval \<Rightarrow> bool" where
  "time_less a b \<longleftrightarrow>
     sint (tv_sec a) < sint (tv_sec b) \<or>
     (sint (tv_sec a) = sint (tv_sec b) \<and> sint (tv_usec a) < sint (tv_usec b))"

text \<open>The difference of two time values in microseconds, as an unbounded integer.\<close>

definition exact_usec :: "timeval \<Rightarrow> timeval \<Rightarrow> int" where
  "exact_usec begin end =
     (sint (tv_sec end) - sint (tv_sec begin)) * 1000000 +
     (sint (tv_usec end) - sint (tv_usec begin))"

subsection \<open>Notes tables\<close>

text \<open>
  A value of a notes table is a \<^verbatim>\<open>char *\<close>. The module stores two kinds of them:
  the \<^verbatim>\<open>acc_data\<close> block, cast to \<^verbatim>\<open>char *\<close>, and the texts made by
  \<^verbatim>\<open>apr_psprintf\<close>. The block is never written after it has been stored, so the
  table holds its content.
\<close>

datatype note_value = Data acc_data | Text string

text \<open>
  \<^verbatim>\<open>apr_table_get\<close> and \<^verbatim>\<open>apr_table_setn\<close> belong to the APR library, not to the
  module. They are modelled by their contract: a table holds at most one visible value
  per key, keys are compared without regard to the case of ASCII letters,
  \<^verbatim>\<open>apr_table_setn\<close> overwrites the value of the key and \<^verbatim>\<open>apr_table_get\<close> returns
  it, or \<^verbatim>\<open>NULL\<close> (here \<open>None\<close>) when the key is absent.
\<close>

definition tolower :: "char \<Rightarrow> char" where
  "tolower c =
     (case map_of (zip ''ABCDEFGHIJKLMNOPQRSTUVWXYZ'' ''abcdefghijklmnopqrstuvwxyz'') c of
        None \<Rightarrow> c
      | Some l \<Rightarrow> l)"

definition key_norm :: "string \<Rightarrow> string" where
  "key_norm key = map tolower key"

type_synonym apr_table = "string \<rightharpoonup> note_value"

definition apr_table_get :: "apr_table \<Rightarrow> string \<Rightarrow> note_value option" where
  "apr_table_get t key = t (key_norm key)"

definition apr_table_setn :: "apr_table \<Rightarrow> string \<Rightarrow> note_value \<Rightarrow> apr_table" where
  "apr_table_setn t key val = t(key_norm key \<mapsto> val)"

text \<open>The key values for use in the notes table.\<close>

definition notes_key_internal :: string where "notes_key_internal = ''ACC_INTERNAL''"
definition notes_key_time :: string where "notes_key_time = ''ACC_time''"
definition notes_key_utime :: string where "notes_key_utime = ''ACC_utime''"
definition notes_key_stime :: string where "notes_key_stime = ''ACC_stime''"
definition notes_key_cutime :: string where "notes_key_cutime = ''ACC_cutime''"
definition notes_key_cstime :: string where "notes_key_cstime = ''ACC_cstime''"
definition notes_key_inblock :: string where "notes_key_inblock = ''ACC_inblock''"
definition notes_key_oublock :: string where "notes_key_oublock = ''ACC_oublock''"
definition notes_key_cinblock :: string where "notes_key_cinblock = ''ACC_cinblock''"
definition notes_key_coublock :: string where "notes_key_coublock = ''ACC_coublock''"

text \<open>The nine keys under which \<^verbatim>\<open>module_accounting_stop\<close> publishes, in its order.\<close>

definition metric_keys :: "string list" where
  "metric_keys =
     [notes_key_time, notes_key_utime, notes_key_stime, notes_key_inblock, notes_key_oublock,
      notes_key_cutime, notes_key_cstime, notes_key_cinblock, notes_key_coublock]"

text \<open>\<^verbatim>\<open>apr_psprintf(pool, "%ld", v)\<close>: the signed decimal text of a \<^verbatim>\<open>long\<close>.\<close>

definition digit :: "nat \<Rightarrow> char" where
  "digit d = ''0123456789'' ! d"

fun decimal :: "nat \<Rightarrow> string" where
  "decimal n = (if n < 10 then [digit n] else decimal (n div 10) @ [digit (n mod 10)])"

declare decimal.simps [simp del]

definition apr_psprintf_ld :: "long \<Rightarrow> string" where
  "apr_psprintf_ld v =
     (if sint v < 0 then CHR ''-'' # decimal (nat (- sint v)) else decimal (nat (sint v)))"

subsection \<open>Requests, the store and the state\<close>

text \<open>
  Of \<^verbatim>\<open>request_rec\<close> the module uses the three links and the notes. A link is
  \<open>None\<close> for \<^verbatim>\<open>NULL\<close> and the address of a request otherwise. The store gives
  the request at every address: a non-null \<^verbatim>\<open>request_rec *\<close> points to a request.
  Each request has a notes table of its own, which the store holds with the request.
\<close>

type_synonym addr = nat

record request_rec =
  main :: "addr option"
  prev :: "addr option"
  "next" :: "addr option"
  "notes" :: apr_table

record state =
  heap :: "addr \<Rightarrow> request_rec"
  error_log :: "log_entry list"

definition logging :: "(log_entry list \<Rightarrow> log_entry list) \<Rightarrow> state \<Rightarrow> state" where
  "logging f s = s\<lparr>error_log := f (error_log s)\<rparr>"

text \<open>\<^verbatim>\<open>apr_table_setn(p->notes, key, val)\<close>\<close>

definition set_note :: "addr \<Rightarrow> string \<Rightarrow> note_value \<Rightarrow> state \<Rightarrow> state" where
  "set_note p key val s =
     s\<lparr>heap := (heap s)(p := (heap s p)\<lparr>notes := apr_table_setn (notes (heap s p)) key val\<rparr>)\<rparr>"

text \<open>A sequence of statements, run from left to right.\<close>

definition seq :: "('s \<Rightarrow> 's) list \<Rightarrow> 's \<Rightarrow> 's" where
  "seq stmts s = fold (\<lambda>stmt. stmt) stmts s"

text \<open>
  The loops \<^verbatim>\<open>while (p->field) p = p->field;\<close> of both hooks, for \<^verbatim>\<open>field\<close> one
  of \<^verbatim>\<open>main\<close>, \<^verbatim>\<open>prev\<close> and \<^verbatim>\<open>next\<close>. On a cyclic chain the loop does not
  return: the result is \<open>None\<close> then.
\<close>

partial_function (option) follow ::
  "(request_rec \<Rightarrow> addr option) \<Rightarrow> (addr \<Rightarrow> request_rec) \<Rightarrow> addr \<Rightarrow> addr option" where
  "follow field h p = (case field (h p) of None \<Rightarrow> Some p | Some q \<Rightarrow> follow field h q)"

text \<open>
  The first and the last request of the chain of \<open>r\<close>, as both hooks determine
  them: up the \<^verbatim>\<open>main\<close> links, then along \<^verbatim>\<open>prev\<close> (or \<^verbatim>\<open>next\<close>).
\<close>

definition resolve_first :: "(addr \<Rightarrow> request_rec) \<Rightarrow> addr \<Rightarrow> addr option" where
  "resolve_first h r = do { initial \<leftarrow> follow main h r; follow prev h initial }"

definition resolve_last :: "(addr \<Rightarrow> request_rec) \<Rightarrow> addr \<Rightarrow> addr option" where
  "resolve_last h r = do { initial \<leftarrow> follow main h r; follow next h initial }"

text \<open>The edges of one kind of link.\<close>

definition links :: "(request_rec \<Rightarrow> addr option) \<Rightarrow> (addr \<Rightarrow> request_rec) \<Rightarrow> (addr \<times> addr) set" where
  "links field h = {(p, q). field (h p) = Some q}"

subsection \<open>The environment of a hook\<close>

text \<open>
  What the system answers during one run of a hook. \<open>gettimeofday\<close>,
  \<open>getrusage_self\<close> and \<open>getrusage_children\<close> are the results of the three calls:
  \<open>None\<close> when the call returns -1, and the value it writes otherwise. A call that
  fails writes nothing. \<open>uninit\<close> is what the memory that receives the values holds
  before the calls: the source initialises neither the block it gets from
  \<^verbatim>\<open>apr_palloc\<close> in \<^verbatim>\<open>module_accounting_start\<close> nor the local variables
  \<^verbatim>\<open>end_time\<close>, \<^verbatim>\<open>end_own_usage\<close> and \<^verbatim>\<open>end_child_usage\<close> of
  \<^verbatim>\<open>module_accounting_stop\<close>. The call of \<^verbatim>\<open>wait4\<close> in
  \<^verbatim>\<open>module_accounting_stop\<close> has no result that the module reads; what it changes
  is in the answer of \<open>getrusage_children\<close>.
\<close>

record env =
  gettimeofday :: "timeval option"
  getrusage_self :: "rusage option"
  getrusage_children :: "rusage option"
  uninit :: acc_data

text \<open>\<^verbatim>\<open>DECLINED\<close> is -1 in \<^verbatim>\<open>httpd.h\<close>.\<close>

definition DECLINED :: int where
  "DECLINED = -1"

text \<open>
  A hook returns a status and leaves a state. \<open>Wild_read\<close> is the one case where the
  model stops: \<^verbatim>\<open>module_accounting_stop\<close> found a text under \<^verbatim>\<open>ACC_INTERNAL\<close>,
  casts it to \<^verbatim>\<open>acc_data *\<close> and reads the fields of a block out of the memory of
  the text.
\<close>

datatype hook_result = Returns int state | Wild_read

subsection \<open>Start accounting\<close>

definition start_debug :: "acc_data \<Rightarrow> log_entry list \<Rightarrow> log_entry list" where
  "start_debug data = seq
     [ACC_LOG_DEBUG_TIME ''accounting_start:data->begin_time'' (begin_time data),
      ACC_LOG_DEBUG_TIME ''accounting_start:data->begin_own_usage.ru_utime''
        (ru_utime (begin_own_usage data)),
      ACC_LOG_DEBUG_TIME ''accounting_start:data->begin_own_usage.ru_stime''
        (ru_stime (begin_own_usage data)),
      ACC_LOG_DEBUG_BLOCKS ''accounting_start:data->begin_own_usage.ru_inblock''
        (ru_inblock (begin_own_usage data)),
      ACC_LOG_DEBUG_BLOCKS ''accounting_start:data->begin_own_usage.ru_oublock''
        (ru_oublock (begin_own_usage data)),
      ACC_LOG_DEBUG_TIME ''accounting_start:data->begin_child_usage.ru_utime''
        (ru_utime (begin_child_usage data)),
      ACC_LOG_DEBUG_TIME ''accounting_start:data->begin_child_usage.ru_stime''
        (ru_stime (begin_child_usage data)),
      ACC_LOG_DEBUG_BLOCKS ''accounting_start:data->begin_child_usage.ru_inblock''
        (ru_inblock (begin_child_usage data)),
      ACC_LOG_DEBUG_BLOCKS ''accounting_start:data->begin_child_usage.ru_oublock''
        (ru_oublock (begin_child_usage data))]"

text \<open>
  The part of \<^verbatim>\<open>module_accounting_start\<close> after the check: allocate the block, ask
  the system three times, terminate the block, log, store it in the notes of
  \<open>initial\<close>.
\<close>

definition take_begin_values :: "env \<Rightarrow> addr \<Rightarrow> state \<Rightarrow> state" where
  "take_begin_values env initial s =
     (let data = uninit env;
          (data, s) = (case gettimeofday env of
              None \<Rightarrow>
                (data, logging (ACC_LOG_REQ_ERROR ''Request for (begin) time of day failed'') s)
            | Some t \<Rightarrow> (data\<lparr>begin_time := t\<rparr>, s));
          (data, s) = (case getrusage_self env of
              None \<Rightarrow>
                (data, logging (ACC_LOG_REQ_ERROR ''Request for (begin) resource usage failed'') s)
            | Some u \<Rightarrow> (data\<lparr>begin_own_usage := u\<rparr>, s));
          (data, s) = (case getrusage_children env of
              None \<Rightarrow>
                (data, logging (ACC_LOG_REQ_ERROR
                   ''Request for children's (begin) resource usage failed'') s)
            | Some u \<Rightarrow> (data\<lparr>begin_child_usage := u\<rparr>, s));
          data = data\<lparr>zero := 0\<rparr>;
          s = logging (start_debug data) s
      in set_note initial notes_key_internal (Data data) s)"

definition module_accounting_start :: "env \<Rightarrow> state \<Rightarrow> addr \<Rightarrow> hook_result option" where
  "module_accounting_start env s r =
     do {
       initial \<leftarrow> follow main (heap s) r;
       initial \<leftarrow> follow prev (heap s) initial;
       if apr_table_get (notes (heap s initial)) notes_key_internal \<noteq> None
       then Some (Returns DECLINED s)
       else Some (Returns DECLINED (take_begin_values env initial s))
     }"

subsection \<open>Stop accounting\<close>

definition stop_debug :: "acc_data \<Rightarrow> timeval \<Rightarrow> rusage \<Rightarrow> rusage \<Rightarrow> log_entry list \<Rightarrow> log_entry list" where
  "stop_debug data end_time end_own_usage end_child_usage = seq
     [ACC_LOG_DEBUG_TIME ''accounting_stop:data->begin_time'' (begin_time data),
      ACC_LOG_DEBUG_TIME ''accounting_stop:data->begin_own_usage.ru_utime''
        (ru_utime (begin_own_usage data)),
      ACC_LOG_DEBUG_TIME ''accounting_stop:data->begin_own_usage.ru_stime''
        (ru_stime (begin_own_usage data)),
      ACC_LOG_DEBUG_BLOCKS ''accounting_stop:data->begin_own_usage.ru_inblock''
        (ru_inblock (begin_own_usage data)),
      ACC_LOG_DEBUG_BLOCKS ''accounting_stop:data->begin_own_usage.ru_oublock''
        (ru_oublock (begin_own_usage data)),
      ACC_LOG_DEBUG_TIME ''accounting_stop:data->begin_child_usage.ru_utime''
        (ru_utime (begin_child_usage data)),
      ACC_LOG_DEBUG_TIME ''accounting_stop:data->begin_child_usage.ru_stime''
        (ru_stime (begin_child_usage data)),
      ACC_LOG_DEBUG_BLOCKS ''accounting_stop:data->begin_child_usage.ru_inblock''
        (ru_inblock (begin_child_usage data)),
      ACC_LOG_DEBUG_BLOCKS ''accounting_stop:data->begin_child_usage.ru_oublock''
        (ru_oublock (begin_child_usage data)),
      ACC_LOG_DEBUG_TIME ''accounting_stop:end_time'' end_time,
      ACC_LOG_DEBUG_TIME ''accounting_stop:end_own_usage.ru_utime'' (ru_utime end_own_usage),
      ACC_LOG_DEBUG_TIME ''accounting_stop:end_own_usage.ru_stime'' (ru_stime end_own_usage),
      ACC_LOG_DEBUG_BLOCKS ''accounting_stop:end_own_usage.ru_inblock''
        (ru_inblock end_own_usage),
      ACC_LOG_DEBUG_BLOCKS ''accounting_stop:end_own_usage.ru_oublock''
        (ru_oublock end_own_usage),
      ACC_LOG_DEBUG_TIME ''accounting_stop:end_child_usage.ru_utime'' (ru_utime end_child_usage),
      ACC_LOG_DEBUG_TIME ''accounting_stop:end_child_usage.ru_stime'' (ru_stime end_child_usage),
      ACC_LOG_DEBUG_BLOCKS ''accounting_stop:end_child_usage.ru_inblock''
        (ru_inblock end_child_usage),
      ACC_LOG_DEBUG_BLOCKS ''accounting_stop:end_child_usage.ru_oublock''
        (ru_oublock end_child_usage)]"

text \<open>
  One statement
  \<^verbatim>\<open>apr_table_setn(last->notes, key, apr_psprintf(last->pool, "%ld", time_difference(last, begin, end)))\<close>
  and the same with \<^verbatim>\<open>block_difference\<close>: the difference is computed (and logs)
  first, then the note is set.
\<close>

definition publish_time :: "addr \<Rightarrow> string \<Rightarrow> timeval \<Rightarrow> timeval \<Rightarrow> state \<Rightarrow> state" where
  "publish_time last_r key begin end s =
     (let (retval, lg) = time_difference (error_log s) begin end
      in set_note last_r key (Text (apr_psprintf_ld retval)) (s\<lparr>error_log := lg\<rparr>))"

definition publish_blocks :: "addr \<Rightarrow> string \<Rightarrow> long \<Rightarrow> long \<Rightarrow> state \<Rightarrow> state" where
  "publish_blocks last_r key begin end s =
     (let (retval, lg) = block_difference (error_log s) begin end
      in set_note last_r key (Text (apr_psprintf_ld retval)) (s\<lparr>error_log := lg\<rparr>))"

text \<open>The nine statements at the end of \<^verbatim>\<open>module_accounting_stop\<close>.\<close>

definition publish :: "addr \<Rightarrow> acc_data \<Rightarrow> timeval \<Rightarrow> rusage \<Rightarrow> rusage \<Rightarrow> state \<Rightarrow> state" where
  "publish last_r data end_time end_own_usage end_child_usage = seq
     [publish_time last_r notes_key_time (begin_time data) end_time,
      publish_time last_r notes_key_utime
        (ru_utime (begin_own_usage data)) (ru_utime end_own_usage),
      publish_time last_r notes_key_stime
        (ru_stime (begin_own_usage data)) (ru_stime end_own_usage),
      publish_blocks last_r notes_key_inblock
        (ru_inblock (begin_own_usage data)) (ru_inblock end_own_usage),
      publish_blocks last_r notes_key_oublock
        (ru_oublock (begin_own_usage data)) (ru_oublock end_own_usage),
      publish_time last_r notes_key_cutime
        (ru_utime (begin_child_usage data)) (ru_utime end_child_usage),
      publish_time last_r notes_key_cstime
        (ru_stime (begin_child_usage data)) (ru_stime end_child_usage),
      publish_blocks last_r notes_key_cinblock
        (ru_inblock (begin_child_usage data)) (ru_inblock end_child_usage),
      publish_blocks last_r notes_key_coublock
        (ru_oublock (begin_child_usage data)) (ru_oublock end_child_usage)]"

text \<open>
  The part of \<^verbatim>\<open>module_accounting_stop\<close> after the block has been found: ask the
  system three times, log, publish.
\<close>

definition take_end_values :: "env \<Rightarrow> addr \<Rightarrow> acc_data \<Rightarrow> state \<Rightarrow> state" where
  "take_end_values env last_r data s =
     (let end_time = begin_time (uninit env);
          end_own_usage = begin_own_usage (uninit env);
          end_child_usage = begin_child_usage (uninit env);
          (end_time, s) = (case gettimeofday env of
              None \<Rightarrow>
                (end_time, logging (ACC_LOG_REQ_ERROR ''Request for (end) time of day failed'') s)
            | Some t \<Rightarrow> (t, s));
          (end_own_usage, s) = (case getrusage_self env of
              None \<Rightarrow>
                (end_own_usage,
                 logging (ACC_LOG_REQ_ERROR ''Request for (end) resource usage failed'') s)
            | Some u \<Rightarrow> (u, s));
          (end_child_usage, s) = (case getrusage_children env of
              None \<Rightarrow>
                (end_child_usage,
                 logging (ACC_LOG_REQ_ERROR
                   ''Request for children's (end) resource usage failed'') s)
            | Some u \<Rightarrow> (u, s));
          s = logging (stop_debug data end_time end_own_usage end_child_usage) s
      in publish last_r data end_time end_own_usage end_child_usage s)"

definition module_accounting_stop :: "env \<Rightarrow> state \<Rightarrow> addr \<Rightarrow> hook_result option" where
  "module_accounting_stop env s r =
     do {
       initial \<leftarrow> follow main (heap s) r;
       let last_r = initial;
       initial \<leftarrow> follow prev (heap s) initial;
       last_r \<leftarrow> follow next (heap s) last_r;
       case apr_table_get (notes (heap s initial)) notes_key_internal of
         None \<Rightarrow>
           Some (Returns DECLINED (logging (ACC_LOG_REQ_ERROR ''Failed to fetch internal data!'') s))
       | Some (Text txt) \<Rightarrow> Some Wild_read
       | Some (Data data) \<Rightarrow> Some (Returns DECLINED (take_end_values env last_r data s))
     }"

subsection \<open>What the hooks compute\<close>

text \<open>
  The value \<^verbatim>\<open>time_difference\<close> and \<^verbatim>\<open>block_difference\<close> return; it does not
  depend on the log.
\<close>

definition time_delta :: "timeval \<Rightarrow> timeval \<Rightarrow> long" where
  "time_delta begin end = fst (time_difference [] begin end)"

definition block_delta :: "long \<Rightarrow> long \<Rightarrow> long" where
  "block_delta begin end = fst (block_difference [] begin end)"

text \<open>
  What the memory that receives an answer of the system holds after the call: the answer,
  or what it held before when the call failed.
\<close>

definition time_of :: "env \<Rightarrow> timeval" where
  "time_of env = (case gettimeofday env of None \<Rightarrow> begin_time (uninit env) | Some t \<Rightarrow> t)"

definition own_usage_of :: "env \<Rightarrow> rusage" where
  "own_usage_of env =
     (case getrusage_self env of None \<Rightarrow> begin_own_usage (uninit env) | Some u \<Rightarrow> u)"

definition child_usage_of :: "env \<Rightarrow> rusage" where
  "child_usage_of env =
     (case getrusage_children env of None \<Rightarrow> begin_child_usage (uninit env) | Some u \<Rightarrow> u)"

text \<open>The block \<^verbatim>\<open>module_accounting_start\<close> stores.\<close>

definition begin_values :: "env \<Rightarrow> acc_data" where
  "begin_values env =
     \<lparr>begin_time = time_of env, begin_own_usage = own_usage_of env,
      begin_child_usage = child_usage_of env, zero = 0\<rparr>"

text \<open>
  The nine differences between a block of begin values and the end values, each with the
  key it is published under, and the entries they make in a notes table.
\<close>

definition differences :: "acc_data \<Rightarrow> timeval \<Rightarrow> rusage \<Rightarrow> rusage \<Rightarrow> (string \<times> long) list" where
  "differences data end_time end_own_usage end_child_usage =
     [(notes_key_time, time_delta (begin_time data) end_time),
      (notes_key_utime, time_delta (ru_utime (begin_own_usage data)) (ru_utime end_own_usage)),
      (notes_key_stime, time_delta (ru_stime (begin_own_usage data)) (ru_stime end_own_usage)),
      (notes_key_inblock,
         block_delta (ru_inblock (begin_own_usage data)) (ru_inblock end_own_usage)),
      (notes_key_oublock,
         block_delta (ru_oublock (begin_own_usage data)) (ru_oublock end_own_usage)),
      (notes_key_cutime,
         time_delta (ru_utime (begin_child_usage data)) (ru_utime end_child_usage)),
      (notes_key_cstime,
         time_delta (ru_stime (begin_child_usage data)) (ru_stime end_child_usage)),
      (notes_key_cinblock,
         block_delta (ru_inblock (begin_child_usage data)) (ru_inblock end_child_usage)),
      (notes_key_coublock,
         block_delta (ru_oublock (begin_child_usage data)) (ru_oublock end_child_usage))]"

definition published :: "acc_data \<Rightarrow> timeval \<Rightarrow> rusage \<Rightarrow> rusage \<Rightarrow> apr_table" where
  "published data end_time end_own_usage end_child_usage =
     map_of (map (\<lambda>(key, v). (key_norm key, Text (apr_psprintf_ld v)))
       (differences data end_time end_own_usage end_child_usage))"

text \<open>The note under \<open>key\<close> of the request at \<open>p\<close> in the state a hook leaves.\<close>

definition note_after :: "hook_result option \<Rightarrow> addr \<Rightarrow> string \<Rightarrow> note_value option" where
  "note_after result p key =
     (case result of
        Some (Returns status s) \<Rightarrow> apr_table_get (notes (heap s p)) key
      | _ \<Rightarrow> None)"

subsection \<open>Ranges\<close>

text \<open>
  A microsecond component is in range when it lies in \<open>[0, 1000000)\<close>. A pair of time
  values is in range when both microsecond components are and the difference in
  microseconds is below \<open>2 ^ 63\<close>; a pair of block counters when its difference is.
  Non-negative counters are always in range. Each pair is judged on its own.
\<close>

definition usec_ok :: "timeval \<Rightarrow> bool" where
  "usec_ok t \<longleftrightarrow> 0 \<le> sint (tv_usec t) \<and> sint (tv_usec t) < 1000000"

definition time_pair_ok :: "timeval \<Rightarrow> timeval \<Rightarrow> bool" where
  "time_pair_ok begin end \<longleftrightarrow> usec_ok begin \<and> usec_ok end \<and> exact_usec begin end < 2 ^ 63"

definition block_pair_ok :: "long \<Rightarrow> long \<Rightarrow> bool" where
  "block_pair_ok begin end \<longleftrightarrow> sint end - sint begin < 2 ^ 63"

subsection \<open>Examples\<close>

text \<open>
  A store with a chain of three requests, 10, 20 and 30, linked by \<^verbatim>\<open>next\<close> and
  \<^verbatim>\<open>prev\<close>, and a sub-request 40 of request 20. All notes are empty.
\<close>

definition lone_request :: request_rec where
  "lone_request = \<lparr>main = None, prev = None, next = None, notes = Map.empty\<rparr>"

definition chain3 :: state where
  "chain3 =
     \<lparr>heap = (\<lambda>p. lone_request)
        (10 := \<lparr>main = None, prev = None, next = Some 20, notes = Map.empty\<rparr>,
         20 := \<lparr>main = None, prev = Some 10, next = Some 30, notes = Map.empty\<rparr>,
         30 := \<lparr>main = None, prev = Some 20, next = None, notes = Map.empty\<rparr>,
         40 := \<lparr>main = Some 20, prev = None, next = None, notes = Map.empty\<rparr>),
      error_log = []\<rparr>"

text \<open>
  Answers of the system: at the begin of a request, at its end, at an end in a far
  future, and when every call fails. \<open>junk\<close> is the content of memory that nobody has
  written.
\<close>

definition no_usage :: rusage where
  "no_usage =
     \<lparr>ru_utime = \<lparr>tv_sec = 0, tv_usec = 0\<rparr>, ru_stime = \<lparr>tv_sec = 0, tv_usec = 0\<rparr>,
      ru_inblock = 0, ru_oublock = 0\<rparr>"

definition junk :: acc_data where
  "junk =
     \<lparr>begin_time = \<lparr>tv_sec = 7, tv_usec = 7\<rparr>,
      begin_own_usage = no_usage\<lparr>ru_inblock := - 9223372036854775808\<rparr>,
      begin_child_usage = no_usage\<lparr>ru_oublock := 7\<rparr>,
      zero = 7\<rparr>"

definition env_begin :: env where
  "env_begin =
     \<lparr>gettimeofday = Some \<lparr>tv_sec = 1000, tv_usec = 0\<rparr>,
      getrusage_self = Some
        \<lparr>ru_utime = \<lparr>tv_sec = 0, tv_usec = 500000\<rparr>, ru_stime = \<lparr>tv_sec = 0, tv_usec = 0\<rparr>,
         ru_inblock = 50, ru_oublock = 0\<rparr>,
      getrusage_children = Some no_usage,
      uninit = junk\<rparr>"

definition env_end :: env where
  "env_end =
     \<lparr>gettimeofday = Some \<lparr>tv_sec = 1002, tv_usec = 250000\<rparr>,
      getrusage_self = Some
        \<lparr>ru_utime = \<lparr>tv_sec = 0, tv_usec = 900000\<rparr>, ru_stime = \<lparr>tv_sec = 0, tv_usec = 0\<rparr>,
         ru_inblock = 30, ru_oublock = 0\<rparr>,
      getrusage_children = Some no_usage,
      uninit = junk\<rparr>"

definition env_far :: env where
  "env_far = env_end\<lparr>gettimeofday := Some \<lparr>tv_sec = 9223372037855, tv_usec = 0\<rparr>\<rparr>"

definition env_fail :: env where
  "env_fail =
     \<lparr>gettimeofday = None, getrusage_self = None, getrusage_children = None, uninit = junk\<rparr>"

text \<open>
  The state \<^verbatim>\<open>module_accounting_start\<close> leaves when it is called on request 30 of
  \<open>chain3\<close>: with the answers \<open>env_begin\<close>, and with every call failing.
\<close>

definition started :: state where
  "started = take_begin_values env_begin 10 chain3"

definition started_blind :: state where
  "started_blind = take_begin_values env_fail 10 chain3"

section \<open>Lemmas\<close>

subsection \<open>The differences\<close>

lemma time_less_iff:
  "time_less e b \<longleftrightarrow>
     tv_sec e <s tv_sec b \<or> (tv_sec e = tv_sec b \<and> tv_usec e <s tv_usec b)"
  by (auto simp: time_less_def word_sless_alt dest: signed_word_eqI)

lemma anomalies_append [simp]: "anomalies (xs @ ys) = anomalies xs @ anomalies ys"
  by (simp add: anomalies_def)

lemma anomalies_debug_time [simp]: "anomalies (ACC_LOG_DEBUG_TIME m t lg) = anomalies lg"
  by (simp add: anomalies_def ACC_LOG_DEBUG_TIME_def)

lemma anomalies_debug_blocks [simp]: "anomalies (ACC_LOG_DEBUG_BLOCKS m n lg) = anomalies lg"
  by (simp add: anomalies_def ACC_LOG_DEBUG_BLOCKS_def)

lemma anomalies_req_error [simp]:
  "anomalies (ACC_LOG_REQ_ERROR msg lg) = anomalies lg @ [Msg msg]"
  by (simp add: ACC_LOG_REQ_ERROR_def anomalies_def)

lemma fst_time_difference: "fst (time_difference lg b e) = time_delta b e"
  by (simp add: time_difference_def time_delta_def Let_def)

lemma fst_block_difference: "fst (block_difference lg b e) = block_delta b e"
  by (simp add: block_difference_def block_delta_def Let_def)

lemma sint_in_range:
  "- (2 ^ 63) \<le> k \<Longrightarrow> k < 2 ^ 63 \<Longrightarrow> sint (word_of_int k :: long) = k"
  by (simp add: signed_of_int signed_take_bit_int_eq_self)

lemma time_difference_value:
  "\<not> time_less e b \<Longrightarrow> fst (time_difference lg b e) = word_of_int (exact_usec b e)"
  by (auto simp: time_difference_def time_less_iff exact_usec_def Let_def)

lemma time_difference_quiet:
  "\<not> time_less e b \<Longrightarrow> anomalies (snd (time_difference lg b e)) = anomalies lg"
  by (auto simp: time_difference_def time_less_iff Let_def)

lemma exact_usec_nonneg:
  assumes "\<not> time_less e b" and "usec_ok b" and "usec_ok e"
  shows "0 \<le> exact_usec b e"
proof (cases "sint (tv_sec e) = sint (tv_sec b)")
  case True
  with assms show ?thesis by (simp add: time_less_def exact_usec_def)
next
  case False
  with assms(1) have "1 \<le> sint (tv_sec e) - sint (tv_sec b)"
    by (simp add: time_less_def)
  then have "1000000 \<le> (sint (tv_sec e) - sint (tv_sec b)) * 1000000" by simp
  with assms(2,3) show ?thesis by (simp add: exact_usec_def usec_ok_def)
qed

lemma time_delta_nonneg:
  assumes "time_pair_ok b e"
  shows "0 \<le> sint (time_delta b e)"
proof (cases "time_less e b")
  case True
  then show ?thesis by (simp add: time_delta_def time_difference_def time_less_iff)
next
  case False
  with assms have "0 \<le> exact_usec b e" and "exact_usec b e < 2 ^ 63"
    by (simp_all add: time_pair_ok_def exact_usec_nonneg)
  with False show ?thesis
    by (simp add: time_delta_def time_difference_value sint_in_range)
qed

lemma block_difference_value:
  assumes "sint b \<le> sint e" and "sint e - sint b < 2 ^ 63"
  shows "sint (fst (block_difference lg b e)) = sint e - sint b"
proof -
  have "fst (block_difference lg b e) = e - b"
    using assms(1) by (simp add: block_difference_def word_sless_alt Let_def)
  moreover have "sint (e - b) = signed_take_bit 63 (sint e - sint b)"
    by (simp add: sint_word_ariths)
  moreover have "signed_take_bit 63 (sint e - sint b) = sint e - sint b"
    using assms by (intro signed_take_bit_int_eq_self) simp_all
  ultimately show ?thesis by simp
qed

lemma block_delta_nonneg:
  assumes "block_pair_ok b e"
  shows "0 \<le> sint (block_delta b e)"
proof (cases "sint e < sint b")
  case True
  then show ?thesis by (simp add: block_delta_def block_difference_def word_sless_alt)
next
  case False
  with assms show ?thesis
    by (simp add: block_delta_def block_difference_value block_pair_ok_def)
qed

subsection \<open>The decimal text\<close>

lemma decimal_digits: "decimal n \<noteq> [] \<and> hd (decimal n) \<in> set ''0123456789''"
proof (induction n rule: decimal.induct)
  case (1 n)
  show ?case
  proof (cases "n < 10")
    case True
    then have "n \<in> {0, 1, 2, 3, 4, 5, 6, 7, 8, 9}" by auto
    then show ?thesis by (subst (1 2) decimal.simps) (auto simp: digit_def)
  next
    case False
    with 1 show ?thesis by (subst (1 2) decimal.simps) simp
  qed
qed

lemma no_minus: "0 \<le> sint v \<Longrightarrow> hd (apr_psprintf_ld v) \<noteq> CHR ''-''"
  using decimal_digits [of "nat (sint v)"] by (auto simp: apr_psprintf_ld_def)

subsection \<open>Following links\<close>

text \<open>
  A loop over a link returns when the link is well-founded, and it reads nothing of the
  store but that link.
\<close>

lemma follow_None: "field (h p) = None \<Longrightarrow> follow field h p = Some p"
  by (subst follow.simps) simp

lemma follow_Some: "field (h p) = Some q \<Longrightarrow> follow field h p = follow field h q"
  by (subst follow.simps) simp

lemma follow_end:
  assumes "follow field h p = Some q"
  shows "field (h q) = None"
proof (rule follow.raw_induct [where P = "\<lambda>f h p q. f (h q) = None", OF _ assms])
  fix follow' f h p q
  assume "\<And>h p b y. follow' h p b = Some y \<Longrightarrow> h (p y) = None"
    and "(case f (h p) of None \<Rightarrow> Some p | Some q \<Rightarrow> follow' f h q) = Some q"
  then show "f (h q) = None" by (cases "f (h p)") auto
qed

lemma follow_wf:
  assumes "wf ((links field h)\<inverse>)"
  shows "\<exists>q. follow field h p = Some q"
  using assms
proof (induction p rule: wf_induct_rule)
  case (less p)
  show ?case
  proof (cases "field (h p)")
    case None
    then show ?thesis by (simp add: follow_None)
  next
    case (Some q)
    then have "(q, p) \<in> (links field h)\<inverse>" by (simp add: links_def)
    from less.IH [OF this] Some show ?thesis by (simp add: follow_Some)
  qed
qed

lemma follow_terminates:
  assumes "finite (links field h)" and "acyclic (links field h)"
  shows "\<exists>q. follow field h p = Some q"
  using assms by (intro follow_wf finite_acyclic_wf_converse)

lemma follow_cong_aux:
  assumes "follow field h p = Some q"
  shows "(\<forall>x. field (h' x) = field (h x)) \<longrightarrow> follow field h' p = Some q"
proof (rule follow.raw_induct
    [where P = "\<lambda>f h p q. (\<forall>x. f (h' x) = f (h x)) \<longrightarrow> follow f h' p = Some q", OF _ assms])
  fix follow' f h p q
  assume IH: "\<And>h p b y. follow' h p b = Some y \<Longrightarrow>
      (\<forall>x. h (h' x) = h (p x)) \<longrightarrow> follow h h' b = Some y"
    and *: "(case f (h p) of None \<Rightarrow> Some p | Some q \<Rightarrow> follow' f h q) = Some q"
  show "(\<forall>x. f (h' x) = f (h x)) \<longrightarrow> follow f h' p = Some q"
  proof (cases "f (h p)")
    case None
    with * show ?thesis by (auto simp: follow_None)
  next
    case (Some p')
    with * IH [of f h p' q] show ?thesis by (auto simp: follow_Some)
  qed
qed

lemma follow_cong:
  assumes "\<And>x. field (h' x) = field (h x)"
  shows "follow field h' p = follow field h p"
proof (cases "follow field h p")
  case (Some q)
  then show ?thesis using assms follow_cong_aux [of field h p q h'] by simp
next
  case None
  show ?thesis
  proof (cases "follow field h' p")
    case None
    with \<open>follow field h p = None\<close> show ?thesis by simp
  next
    case (Some q)
    then have "follow field h p = Some q"
      using assms follow_cong_aux [of field h' p q h] by simp
    with None show ?thesis by simp
  qed
qed

lemma resolve_cong:
  assumes "\<And>q. main (h' q) = main (h q)" and "\<And>q. prev (h' q) = prev (h q)"
    and "\<And>q. next (h' q) = next (h q)"
  shows "resolve_first h' r = resolve_first h r" and "resolve_last h' r = resolve_last h r"
  using follow_cong [of main h' h, OF assms(1)] follow_cong [of prev h' h, OF assms(2)]
    follow_cong [of "next" h' h, OF assms(3)]
  by (simp_all add: resolve_first_def resolve_last_def)

subsection \<open>Keys and notes\<close>

lemma key_norm_keys:
  "key_norm notes_key_internal = ''acc_internal''"
  "key_norm notes_key_time = ''acc_time''"
  "key_norm notes_key_utime = ''acc_utime''"
  "key_norm notes_key_stime = ''acc_stime''"
  "key_norm notes_key_cutime = ''acc_cutime''"
  "key_norm notes_key_cstime = ''acc_cstime''"
  "key_norm notes_key_inblock = ''acc_inblock''"
  "key_norm notes_key_oublock = ''acc_oublock''"
  "key_norm notes_key_cinblock = ''acc_cinblock''"
  "key_norm notes_key_coublock = ''acc_coublock''"
  by (simp_all add: key_norm_def tolower_def notes_key_internal_def notes_key_time_def
      notes_key_utime_def notes_key_stime_def notes_key_cutime_def notes_key_cstime_def
      notes_key_inblock_def notes_key_oublock_def notes_key_cinblock_def notes_key_coublock_def)

lemma fst_differences: "map fst (differences data et eo ec) = metric_keys"
  by (simp add: differences_def metric_keys_def)

lemma distinct_metric_keys: "distinct (map key_norm metric_keys)"
  by (simp add: metric_keys_def key_norm_keys)

lemma internal_not_metric: "key_norm notes_key_internal \<notin> key_norm ` set metric_keys"
  by (simp add: metric_keys_def key_norm_keys)

lemma dom_published: "dom (published data et eo ec) = key_norm ` set metric_keys"
proof -
  have "dom (published data et eo ec) = key_norm ` set (map fst (differences data et eo ec))"
    unfolding published_def dom_map_of_conv_image_fst by (simp add: image_image split_def)
  then show ?thesis by (simp add: fst_differences)
qed

lemma published_Some:
  assumes "(key, v) \<in> set (differences data et eo ec)"
  shows "published data et eo ec (key_norm key) = Some (Text (apr_psprintf_ld v))"
proof -
  let ?xs = "map (\<lambda>(key, v). (key_norm key, Text (apr_psprintf_ld v))) (differences data et eo ec)"
  have "map fst ?xs = map key_norm (map fst (differences data et eo ec))"
    by (simp add: split_def comp_def)
  then have "distinct (map fst ?xs)"
    by (simp only: fst_differences distinct_metric_keys)
  moreover have "(key_norm key, Text (apr_psprintf_ld v)) \<in> set ?xs"
    using assms by force
  ultimately show ?thesis
    unfolding published_def by (rule map_of_is_SomeI)
qed

lemma published_None:
  "k \<notin> key_norm ` set metric_keys \<Longrightarrow> published data et eo ec k = None"
  using dom_published [of data et eo ec] by blast

subsection \<open>The store after each step\<close>

lemma heap_logging [simp]: "heap (logging f s) = heap s"
  by (simp add: logging_def)

lemma error_log_logging [simp]: "error_log (logging f s) = f (error_log s)"
  by (simp add: logging_def)

lemma heap_set_note:
  "heap (set_note p key val s) =
     (heap s)(p := (heap s p)\<lparr>notes := (notes (heap s p))(key_norm key \<mapsto> val)\<rparr>)"
  by (simp add: set_note_def apr_table_setn_def)

lemma error_log_set_note [simp]: "error_log (set_note p key val s) = error_log s"
  by (simp add: set_note_def)

lemma heap_publish_time:
  "heap (publish_time p key b e s) =
     (heap s)(p := (heap s p)\<lparr>notes :=
        (notes (heap s p))(key_norm key \<mapsto> Text (apr_psprintf_ld (time_delta b e)))\<rparr>)"
  by (simp add: publish_time_def heap_set_note split_def fst_time_difference)

lemma heap_publish_blocks:
  "heap (publish_blocks p key b e s) =
     (heap s)(p := (heap s p)\<lparr>notes :=
        (notes (heap s p))(key_norm key \<mapsto> Text (apr_psprintf_ld (block_delta b e)))\<rparr>)"
  by (simp add: publish_blocks_def heap_set_note split_def fst_block_difference)

lemma heap_publish:
  "heap (publish p data et eo ec s) =
     (heap s)(p := (heap s p)\<lparr>notes := notes (heap s p) ++ published data et eo ec\<rparr>)"
  apply (simp add: publish_def seq_def heap_publish_time heap_publish_blocks published_def
      differences_def key_norm_keys)
  apply (rule arg_cong [where f = "\<lambda>m. (heap s)(p := (heap s p)\<lparr>notes := m\<rparr>)"])
  apply (rule ext)
  apply (simp add: map_add_def)
  done

lemma heap_take_end_values:
  "heap (take_end_values env p data s) =
     (heap s)(p := (heap s p)\<lparr>notes := notes (heap s p) ++
        published data (time_of env) (own_usage_of env) (child_usage_of env)\<rparr>)"
  by (simp add: take_end_values_def heap_publish time_of_def own_usage_of_def child_usage_of_def
      split: option.splits)

lemma heap_take_begin_values:
  "heap (take_begin_values env p s) =
     (heap s)(p := (heap s p)\<lparr>notes :=
        (notes (heap s p))(key_norm notes_key_internal \<mapsto> Data (begin_values env))\<rparr>)"
  by (cases "uninit env")
    (simp add: take_begin_values_def heap_set_note begin_values_def time_of_def own_usage_of_def
      child_usage_of_def Let_def split: option.splits)

lemma anomalies_start_debug [simp]: "anomalies (start_debug data lg) = anomalies lg"
  by (simp add: start_debug_def seq_def)

lemma anomalies_take_begin_values:
  "anomalies (error_log (take_begin_values env p s)) =
     anomalies (error_log s) @
     (if gettimeofday env = None then [Msg ''Request for (begin) time of day failed''] else []) @
     (if getrusage_self env = None then [Msg ''Request for (begin) resource usage failed''] else []) @
     (if getrusage_children env = None
      then [Msg ''Request for children's (begin) resource usage failed''] else [])"
  by (simp add: take_begin_values_def Let_def split: option.splits)

lemma resolve_take_begin_values:
  "resolve_first (heap (take_begin_values env p s)) r = resolve_first (heap s) r"
  "resolve_last (heap (take_begin_values env p s)) r = resolve_last (heap s) r"
  by (rule resolve_cong; simp add: heap_take_begin_values)+

lemma resolve_take_end_values:
  "resolve_first (heap (take_end_values env p data s)) r = resolve_first (heap s) r"
  "resolve_last (heap (take_end_values env p data s)) r = resolve_last (heap s) r"
  by (rule resolve_cong; simp add: heap_take_end_values)+

lemma internal_take_end_values:
  "apr_table_get (notes (heap (take_end_values env p data s) q)) notes_key_internal =
     apr_table_get (notes (heap s q)) notes_key_internal"
  using internal_not_metric [folded dom_published [of data "time_of env" "own_usage_of env" "child_usage_of env"]]
  by (auto simp: heap_take_end_values apr_table_get_def map_add_def split: option.splits)

subsection \<open>The hooks on a resolved chain\<close>

lemma start_resolved:
  assumes "resolve_first (heap s) r = Some first"
  shows "module_accounting_start env s r =
     Some (Returns DECLINED
       (if apr_table_get (notes (heap s first)) notes_key_internal \<noteq> None then s
        else take_begin_values env first s))"
proof -
  from assms obtain top where "follow main (heap s) r = Some top"
    and "follow prev (heap s) top = Some first"
    by (auto simp: resolve_first_def bind_eq_Some_conv)
  then show ?thesis
    by (simp add: module_accounting_start_def)
qed

lemma stop_resolved:
  assumes "resolve_first (heap s) r = Some first" and "resolve_last (heap s) r = Some l"
  shows "module_accounting_stop env s r =
     (case apr_table_get (notes (heap s first)) notes_key_internal of
        None \<Rightarrow>
          Some (Returns DECLINED (logging (ACC_LOG_REQ_ERROR ''Failed to fetch internal data!'') s))
      | Some (Text txt) \<Rightarrow> Some Wild_read
      | Some (Data data) \<Rightarrow> Some (Returns DECLINED (take_end_values env l data s)))"
proof -
  from assms obtain top where "follow main (heap s) r = Some top"
    and "follow prev (heap s) top = Some first" and "follow next (heap s) top = Some l"
    by (auto simp: resolve_first_def resolve_last_def bind_eq_Some_conv)
  then show ?thesis
    by (simp add: module_accounting_stop_def)
qed

lemma note_after_Returns [simp]:
  "note_after (Some (Returns status s)) p key = apr_table_get (notes (heap s p)) key"
  by (simp add: note_after_def)

lemma note_after_stop:
  assumes "resolve_first (heap s) r = Some first" and "resolve_last (heap s) r = Some l"
    and "apr_table_get (notes (heap s first)) notes_key_internal = Some (Data data)"
    and "(key, v) \<in> set (differences data (time_of env) (own_usage_of env) (child_usage_of env))"
  shows "note_after (module_accounting_stop env s r) l key = Some (Text (apr_psprintf_ld v))"
  using assms(3,4)
  by (simp add: stop_resolved [OF assms(1,2)] heap_take_end_values apr_table_get_def map_add_def
      published_Some)

lemma nonneg_published:
  assumes "(key, v) \<in> set (differences data (time_of env) (own_usage_of env) (child_usage_of env))"
    and "0 \<le> sint v"
  shows "\<exists>v. apr_table_get (notes (heap (take_end_values env l data s) l)) key =
      Some (Text (apr_psprintf_ld v)) \<and> 0 \<le> sint v \<and> hd (apr_psprintf_ld v) \<noteq> CHR ''-''"
proof -
  have "apr_table_get (notes (heap (take_end_values env l data s) l)) key =
      Some (Text (apr_psprintf_ld v))"
    using assms(1)
    by (simp add: heap_take_end_values apr_table_get_def map_add_def published_Some)
  with assms(2) no_minus show ?thesis by blast
qed

subsection \<open>The examples\<close>

lemma chain3_links:
  "main (heap chain3 10) = None" "prev (heap chain3 10) = None" "next (heap chain3 10) = Some 20"
  "main (heap chain3 20) = None" "prev (heap chain3 20) = Some 10" "next (heap chain3 20) = Some 30"
  "main (heap chain3 30) = None" "prev (heap chain3 30) = Some 20" "next (heap chain3 30) = None"
  "main (heap chain3 40) = Some 20"
  by (simp_all add: chain3_def)

lemma chain3_notes: "notes (heap chain3 p) = Map.empty"
  by (simp add: chain3_def lone_request_def)

lemma chain3_resolve:
  "resolve_first (heap chain3) 10 = Some 10" "resolve_last (heap chain3) 10 = Some 30"
  "resolve_first (heap chain3) 20 = Some 10" "resolve_last (heap chain3) 20 = Some 30"
  "resolve_first (heap chain3) 30 = Some 10" "resolve_last (heap chain3) 30 = Some 30"
  "resolve_first (heap chain3) 40 = Some 10" "resolve_last (heap chain3) 40 = Some 30"
  by (simp_all add: resolve_first_def resolve_last_def follow_Some follow_None chain3_links)

lemma chain3_links_sets:
  "links main (heap chain3) = {(40, 20)}"
  "links prev (heap chain3) = {(20, 10), (30, 20)}"
  "links next (heap chain3) = {(10, 20), (20, 30)}"
  by (auto simp: links_def chain3_def lone_request_def split: if_splits)

lemma chain3_acyclic:
  "acyclic (links main (heap chain3))" "acyclic (links prev (heap chain3))"
  "acyclic (links next (heap chain3))"
proof -
  have up: "acyclic {(p, q :: nat). p < q}"
    by (rule wf_acyclic) (rule wf_less)
  then have "acyclic ({(p, q :: nat). p < q}\<inverse>)"
    by (simp only: acyclic_converse)
  then have down: "acyclic {(p, q :: nat). q < p}"
    by (simp add: converse_unfold)
  show "acyclic (links main (heap chain3))" "acyclic (links prev (heap chain3))"
    by (rule acyclic_subset [OF down]; simp add: chain3_links_sets)+
  show "acyclic (links next (heap chain3))"
    by (rule acyclic_subset [OF up]) (simp add: chain3_links_sets)
qed

lemma chain3_finite:
  "finite (links main (heap chain3))" "finite (links prev (heap chain3))"
  "finite (links next (heap chain3))"
  by (simp_all add: chain3_links_sets)

lemma started_resolve:
  "resolve_first (heap started) 20 = Some 10" "resolve_last (heap started) 20 = Some 30"
  "resolve_first (heap started) 30 = Some 10" "resolve_first (heap started) 40 = Some 10"
  by (simp_all add: started_def resolve_take_begin_values chain3_resolve)

lemma started_begin_values:
  "apr_table_get (notes (heap started 10)) notes_key_internal = Some (Data (begin_values env_begin))"
  by (simp add: started_def heap_take_begin_values apr_table_get_def)

lemma start_chain3: "module_accounting_start env_begin chain3 30 = Some (Returns DECLINED started)"
  by (simp add: start_resolved [OF chain3_resolve(5)] chain3_notes apr_table_get_def started_def)

lemma started_blind_resolve:
  "resolve_first (heap started_blind) 20 = Some 10" "resolve_last (heap started_blind) 20 = Some 30"
  by (simp_all add: started_blind_def resolve_take_begin_values chain3_resolve)

lemma started_blind_begin_values:
  "apr_table_get (notes (heap started_blind 10)) notes_key_internal =
     Some (Data (junk\<lparr>zero := 0\<rparr>))"
  by (simp add: started_blind_def heap_take_begin_values apr_table_get_def begin_values_def
      time_of_def own_usage_of_def child_usage_of_def env_fail_def junk_def)

lemma start_blind: "module_accounting_start env_fail chain3 30 = Some (Returns DECLINED started_blind)"
  by (simp add: start_resolved [OF chain3_resolve(5)] chain3_notes apr_table_get_def
      started_blind_def)

lemma time_delta_examples:
  "time_delta \<lparr>tv_sec = 1000, tv_usec = 0\<rparr> \<lparr>tv_sec = 1002, tv_usec = 250000\<rparr> = 2250000"
  "time_delta \<lparr>tv_sec = 0, tv_usec = 500000\<rparr> \<lparr>tv_sec = 0, tv_usec = 900000\<rparr> = 400000"
  "time_delta \<lparr>tv_sec = 1000, tv_usec = 0\<rparr> \<lparr>tv_sec = 9223372037855, tv_usec = 0\<rparr> =
     - 9223372036854551616"
  by (simp_all add: time_delta_def time_difference_def word_sless_alt Let_def)

lemma block_delta_examples:
  "block_delta 50 30 = 0"
  "block_delta (- 9223372036854775808) 30 = - 9223372036854775778"
  by (simp_all add: block_delta_def block_difference_def word_sless_alt Let_def)

lemma apr_psprintf_ld_examples:
  "apr_psprintf_ld 2250000 = ''2250000''"
  "apr_psprintf_ld 400000 = ''400000''"
  "apr_psprintf_ld 0 = ''0''"
  "apr_psprintf_ld (- 9223372036854551616) = ''-9223372036854551616''"
  "apr_psprintf_ld (- 9223372036854775778) = ''-9223372036854775778''"
  by (simp_all add: apr_psprintf_ld_def decimal.simps digit_def)

section \<open>The claims\<close>

subsection \<open>C1: the time difference of an ordered pair\<close>

text \<open>
  C1 says that for every pair with \<open>end\<close> not earlier than \<open>begin\<close> the function
  returns exactly \<open>(end.sec - begin.sec) * 1000000 + (end.usec - begin.usec)\<close>. The
  source computes this in 64 bits. Two seconds counts that are far enough apart make
  the product leave the range of a \<^verbatim>\<open>long\<close>: from 1000 s to 9223372037855 s the
  difference is 9223372036855000000 microseconds, above \<open>2 ^ 63 - 1\<close>, and the function
  returns a negative number.
\<close>

theorem time_difference_overflow:
  "\<not> time_less \<lparr>tv_sec = 9223372037855, tv_usec = 0\<rparr> \<lparr>tv_sec = 1000, tv_usec = 0\<rparr> \<and>
   exact_usec \<lparr>tv_sec = 1000, tv_usec = 0\<rparr> \<lparr>tv_sec = 9223372037855, tv_usec = 0\<rparr> =
     9223372036855000000 \<and>
   sint (fst (time_difference [] \<lparr>tv_sec = 1000, tv_usec = 0\<rparr>
     \<lparr>tv_sec = 9223372037855, tv_usec = 0\<rparr>)) = - 9223372036854551616"
  by (simp add: time_less_def exact_usec_def time_difference_def word_sless_alt Let_def)

text \<open>
  C1, amended. For every pair with \<open>end\<close> not earlier than \<open>begin\<close>,
  \<open>time_difference\<close> returns the difference
  \<open>(end.sec - begin.sec) * 1000000 + (end.usec - begin.usec)\<close> reduced to 64 bits and
  logs no anomaly; whenever the difference lies in \<open>[- 2 ^ 63, 2 ^ 63)\<close>, the value
  returned is exactly the difference.
\<close>

theorem time_difference_exact:
  "\<not> time_less e b \<Longrightarrow>
     fst (time_difference lg b e) = word_of_int (exact_usec b e) \<and>
     anomalies (snd (time_difference lg b e)) = anomalies lg \<and>
     (- (2 ^ 63) \<le> exact_usec b e \<and> exact_usec b e < 2 ^ 63 \<longrightarrow>
        sint (fst (time_difference lg b e)) = exact_usec b e)"
  by (simp add: time_difference_value time_difference_quiet sint_in_range)

theorem time_difference_exact_witness:
  "\<not> time_less \<lparr>tv_sec = 1002, tv_usec = 250000\<rparr> \<lparr>tv_sec = 1000, tv_usec = 0\<rparr> \<and>
   sint (fst (time_difference [] \<lparr>tv_sec = 1000, tv_usec = 0\<rparr>
     \<lparr>tv_sec = 1002, tv_usec = 250000\<rparr>)) = 2250000"
proof -
  have h: "\<not> time_less \<lparr>tv_sec = 1002, tv_usec = 250000\<rparr> \<lparr>tv_sec = 1000, tv_usec = 0\<rparr>"
    by (simp add: time_less_def)
  show ?thesis
    using h time_difference_exact [OF h, of "[]"] by (simp add: exact_usec_def)
qed

subsection \<open>C5: time travel\<close>

text \<open>
  C5. When \<open>end\<close> is strictly earlier than \<open>begin\<close> (seconds first, microseconds
  as the tiebreak), \<open>time_difference\<close> returns 0 and appends exactly one entry to the
  log: an error that carries both time values.
\<close>

theorem time_difference_timetravel:
  "time_less e b \<Longrightarrow>
     time_difference lg b e = (0, lg @ [(APLOG_ERR, Timetraveling b e)]) \<and>
     anomalies (snd (time_difference lg b e)) = anomalies lg @ [Timetraveling b e]"
  by (simp add: time_difference_def time_less_iff anomalies_def)

theorem time_difference_timetravel_witness:
  "time_less \<lparr>tv_sec = 5, tv_usec = 2\<rparr> \<lparr>tv_sec = 5, tv_usec = 3\<rparr> \<and>
   time_difference [] \<lparr>tv_sec = 5, tv_usec = 3\<rparr> \<lparr>tv_sec = 5, tv_usec = 2\<rparr> =
     (0, [(APLOG_ERR, Timetraveling \<lparr>tv_sec = 5, tv_usec = 3\<rparr> \<lparr>tv_sec = 5, tv_usec = 2\<rparr>)])"
proof -
  have h: "time_less \<lparr>tv_sec = 5, tv_usec = 2\<rparr> \<lparr>tv_sec = 5, tv_usec = 3\<rparr>"
    by (simp add: time_less_def)
  show ?thesis
    using h time_difference_timetravel [OF h, of "[]"] by simp
qed

subsection \<open>C6: the difference of block counters\<close>

text \<open>
  C6. For non-negative counters \<open>begin\<close> and \<open>end\<close>: when \<open>begin \<le> end\<close>,
  \<open>block_difference\<close> returns \<open>end - begin\<close> and logs no anomaly; when
  \<open>end < begin\<close>, it returns 0 and appends exactly one entry to the log, an error that
  carries both counters.
\<close>

theorem block_difference_counters:
  "0 \<le> sint b \<Longrightarrow> 0 \<le> sint e \<Longrightarrow>
     (sint b \<le> sint e \<longrightarrow>
        sint (fst (block_difference lg b e)) = sint e - sint b \<and>
        anomalies (snd (block_difference lg b e)) = anomalies lg) \<and>
     (sint e < sint b \<longrightarrow>
        block_difference lg b e = (0, lg @ [(APLOG_ERR, Negative_blockcount b e)]) \<and>
        anomalies (snd (block_difference lg b e)) = anomalies lg @ [Negative_blockcount b e])"
proof (intro conjI impI)
  assume "0 \<le> sint b" and "sint b \<le> sint e"
  moreover have "sint e < 2 ^ 63" using sint_lt [of e] by simp
  ultimately show "sint (fst (block_difference lg b e)) = sint e - sint b"
    by (simp add: block_difference_value)
next
  assume "sint b \<le> sint e"
  then show "anomalies (snd (block_difference lg b e)) = anomalies lg"
    by (simp add: block_difference_def word_sless_alt Let_def)
next
  assume "sint e < sint b"
  then show "block_difference lg b e = (0, lg @ [(APLOG_ERR, Negative_blockcount b e)])"
    by (simp add: block_difference_def word_sless_alt)
next
  assume "sint e < sint b"
  then show "anomalies (snd (block_difference lg b e)) = anomalies lg @ [Negative_blockcount b e]"
    by (simp add: block_difference_def word_sless_alt anomalies_def)
qed

theorem block_difference_counters_witness:
  "sint (fst (block_difference [] 30 50)) = 20 \<and>
   anomalies (snd (block_difference [] 30 50)) = [] \<and>
   block_difference [] 50 30 = (0, [(APLOG_ERR, Negative_blockcount 50 30)])"
  using block_difference_counters [of 30 50 "[]"] block_difference_counters [of 50 30 "[]"]
  by (simp add: anomalies_def)

subsection \<open>C9: the traversals\<close>

text \<open>
  C9. The traversals are functions of the store and of the request they start from:
  they have no state to change. When each of the three kinds of link has finitely many
  edges and no cycle, both traversals return a request, the first one a request without
  \<^verbatim>\<open>prev\<close> and the second one a request without \<^verbatim>\<open>next\<close>, and both hooks return.
  A request without \<^verbatim>\<open>main\<close> and without \<^verbatim>\<open>prev\<close> (without \<^verbatim>\<open>next\<close>) is
  its own first (last) request.
\<close>

theorem resolve_terminates:
  assumes "finite (links main (heap s))" and "acyclic (links main (heap s))"
    and "finite (links prev (heap s))" and "acyclic (links prev (heap s))"
    and "finite (links next (heap s))" and "acyclic (links next (heap s))"
  shows "(\<exists>first l.
       resolve_first (heap s) r = Some first \<and> prev (heap s first) = None \<and>
       resolve_last (heap s) r = Some l \<and> next (heap s l) = None) \<and>
     module_accounting_start env s r \<noteq> None \<and>
     module_accounting_stop env s r \<noteq> None \<and>
     (main (heap s r) = None \<and> prev (heap s r) = None \<longrightarrow> resolve_first (heap s) r = Some r) \<and>
     (main (heap s r) = None \<and> next (heap s r) = None \<longrightarrow> resolve_last (heap s) r = Some r)"
proof -
  obtain top where top: "follow main (heap s) r = Some top"
    using follow_terminates [OF assms(1,2)] by blast
  obtain first where first: "follow prev (heap s) top = Some first"
    using follow_terminates [OF assms(3,4)] by blast
  obtain l where l: "follow next (heap s) top = Some l"
    using follow_terminates [OF assms(5,6)] by blast
  have rf: "resolve_first (heap s) r = Some first" and rl: "resolve_last (heap s) r = Some l"
    using top first l by (simp_all add: resolve_first_def resolve_last_def)
  have "prev (heap s first) = None" and "next (heap s l) = None"
    using first l by (auto dest: follow_end)
  moreover have "module_accounting_start env s r \<noteq> None"
    by (simp add: start_resolved [OF rf])
  moreover have "module_accounting_stop env s r \<noteq> None"
    by (simp add: stop_resolved [OF rf rl] split: option.splits note_value.splits)
  moreover have "main (heap s r) = None \<and> prev (heap s r) = None \<longrightarrow>
      resolve_first (heap s) r = Some r"
    by (simp add: resolve_first_def follow_None)
  moreover have "main (heap s r) = None \<and> next (heap s r) = None \<longrightarrow>
      resolve_last (heap s) r = Some r"
    by (simp add: resolve_last_def follow_None)
  ultimately show ?thesis using rf rl by blast
qed

theorem resolve_terminates_witness:
  "finite (links prev (heap chain3)) \<and> acyclic (links prev (heap chain3)) \<and>
   resolve_first (heap chain3) 40 = Some 10 \<and> resolve_last (heap chain3) 40 = Some 30 \<and>
   module_accounting_start env_begin chain3 40 \<noteq> None \<and>
   module_accounting_stop env_begin chain3 40 \<noteq> None \<and>
   resolve_first (heap chain3) 10 = Some 10 \<and> resolve_last (heap chain3) 30 = Some 30"
proof -
  note rt = resolve_terminates [OF chain3_finite(1) chain3_acyclic(1) chain3_finite(2)
      chain3_acyclic(2) chain3_finite(3) chain3_acyclic(3)]
  show ?thesis
    using rt [where r = 40 and env = env_begin] rt [where r = 10 and env = env_begin]
      rt [where r = 30 and env = env_begin]
    by (simp add: chain3_links chain3_resolve chain3_finite chain3_acyclic)
qed

subsection \<open>C7: stop without begin values\<close>

text \<open>
  C7. When the first request of the chain has nothing under \<^verbatim>\<open>ACC_INTERNAL\<close>,
  \<open>module_accounting_stop\<close> returns \<^verbatim>\<open>DECLINED\<close> and leaves the state as it was
  but for one new entry of the log, the error "Failed to fetch internal data!": the store,
  and with it the notes of every request, is unchanged.
\<close>

theorem stop_missing_begin_values:
  assumes "resolve_first (heap s) r = Some first" and "resolve_last (heap s) r = Some l"
    and "apr_table_get (notes (heap s first)) notes_key_internal = None"
  shows "module_accounting_stop env s r =
     Some (Returns DECLINED
       (s\<lparr>error_log := error_log s @ [(APLOG_ERR, Msg ''Failed to fetch internal data!'')]\<rparr>))"
  using assms(3) by (simp add: stop_resolved [OF assms(1,2)] logging_def ACC_LOG_REQ_ERROR_def)

theorem stop_missing_begin_values_witness:
  "resolve_first (heap chain3) 20 = Some 10 \<and> resolve_last (heap chain3) 20 = Some 30 \<and>
   apr_table_get (notes (heap chain3 10)) notes_key_internal = None \<and>
   module_accounting_stop env_end chain3 20 =
     Some (Returns DECLINED
       (chain3\<lparr>error_log := [(APLOG_ERR, Msg ''Failed to fetch internal data!'')]\<rparr>))"
proof -
  have h: "apr_table_get (notes (heap chain3 10)) notes_key_internal = None"
    by (simp add: chain3_notes apr_table_get_def)
  have "error_log chain3 = []" by (simp add: chain3_def)
  with stop_missing_begin_values [OF chain3_resolve(3,4) h, of env_end] h show ?thesis
    by (simp add: chain3_resolve)
qed

subsection \<open>C4: start is idempotent\<close>

text \<open>
  C4. Let \<open>r1\<close> and \<open>r2\<close> resolve to the same first request. A call of
  \<open>module_accounting_start\<close> on \<open>r1\<close> returns \<^verbatim>\<open>DECLINED\<close>; it stores the begin
  values in the notes of the first request when there were none, changes nothing when
  there were some, and never touches another request. A second call, on \<open>r2\<close> and with
  any answers of the system, returns \<^verbatim>\<open>DECLINED\<close> and leaves the state exactly as the
  first call left it: nothing is captured, overwritten or logged.
\<close>

theorem start_idempotent:
  assumes "resolve_first (heap s) r1 = Some first" and "resolve_first (heap s) r2 = Some first"
  shows "\<exists>s1.
     module_accounting_start env1 s r1 = Some (Returns DECLINED s1) \<and>
     (apr_table_get (notes (heap s first)) notes_key_internal = None \<longrightarrow>
        apr_table_get (notes (heap s1 first)) notes_key_internal = Some (Data (begin_values env1))) \<and>
     (apr_table_get (notes (heap s first)) notes_key_internal \<noteq> None \<longrightarrow> s1 = s) \<and>
     (\<forall>q. q \<noteq> first \<longrightarrow> heap s1 q = heap s q) \<and>
     module_accounting_start env2 s1 r2 = Some (Returns DECLINED s1)"
proof (cases "apr_table_get (notes (heap s first)) notes_key_internal = None")
  case False
  then show ?thesis
    by (simp add: start_resolved [OF assms(1)] start_resolved [OF assms(2)])
next
  case True
  let ?s1 = "take_begin_values env1 first s"
  have 1: "module_accounting_start env1 s r1 = Some (Returns DECLINED ?s1)"
    using True by (simp add: start_resolved [OF assms(1)])
  have 2: "apr_table_get (notes (heap ?s1 first)) notes_key_internal = Some (Data (begin_values env1))"
    by (simp add: heap_take_begin_values apr_table_get_def)
  have "resolve_first (heap ?s1) r2 = Some first"
    using assms(2) by (simp add: resolve_take_begin_values)
  from start_resolved [OF this] 2
  have 3: "module_accounting_start env2 ?s1 r2 = Some (Returns DECLINED ?s1)"
    by simp
  have 4: "\<forall>q. q \<noteq> first \<longrightarrow> heap ?s1 q = heap s q"
    by (simp add: heap_take_begin_values)
  from 1 2 3 4 True show ?thesis by simp
qed

theorem start_idempotent_witness:
  "resolve_first (heap chain3) 30 = Some 10 \<and> resolve_first (heap chain3) 40 = Some 10 \<and>
   apr_table_get (notes (heap chain3 10)) notes_key_internal = None \<and>
   module_accounting_start env_begin chain3 30 = Some (Returns DECLINED started) \<and>
   apr_table_get (notes (heap started 10)) notes_key_internal = Some (Data (begin_values env_begin)) \<and>
   module_accounting_start env_end started 40 = Some (Returns DECLINED started) \<and>
   module_accounting_start env_fail started 30 = Some (Returns DECLINED started)"
proof -
  have fresh: "apr_table_get (notes (heap chain3 10)) notes_key_internal = None"
    by (simp add: chain3_notes apr_table_get_def)
  from start_idempotent [OF chain3_resolve(5) chain3_resolve(7), of env_begin env_end]
  have "module_accounting_start env_end started 40 = Some (Returns DECLINED started)"
    by (auto simp: start_chain3)
  moreover from start_idempotent [OF started_resolve(3) started_resolve(4), of env_fail env_fail]
  have "module_accounting_start env_fail started 30 = Some (Returns DECLINED started)"
    by (auto simp: started_begin_values)
  ultimately show ?thesis
    using fresh chain3_resolve(5,7) start_chain3 started_begin_values by (intro conjI)
qed

subsection \<open>C2: a chain of three requests\<close>

text \<open>
  C2. Let \<open>A\<close>, \<open>B\<close>, \<open>C\<close> be a chain linked by \<^verbatim>\<open>next\<close> and \<^verbatim>\<open>prev\<close>, none
  with a \<^verbatim>\<open>main\<close>, and let the notes of \<open>A\<close> hold no begin values yet. Then
  \<open>module_accounting_start\<close> called on \<open>C\<close> stores the begin values in the notes of
  \<open>A\<close> under \<^verbatim>\<open>ACC_INTERNAL\<close> and leaves \<open>B\<close> and \<open>C\<close> alone, and
  \<open>module_accounting_stop\<close> called on \<open>B\<close> afterwards publishes the nine differences
  between these begin values and its end values in the notes of \<open>C\<close> and leaves \<open>A\<close>
  and \<open>B\<close> alone.
\<close>

theorem chain_of_three:
  assumes "main (heap s A) = None" and "prev (heap s A) = None" and "next (heap s A) = Some B"
    and "main (heap s B) = None" and "prev (heap s B) = Some A" and "next (heap s B) = Some C"
    and "main (heap s C) = None" and "prev (heap s C) = Some B" and "next (heap s C) = None"
    and "apr_table_get (notes (heap s A)) notes_key_internal = None"
  shows "\<exists>s1 s2.
     module_accounting_start env1 s C = Some (Returns DECLINED s1) \<and>
     apr_table_get (notes (heap s1 A)) notes_key_internal = Some (Data (begin_values env1)) \<and>
     heap s1 B = heap s B \<and> heap s1 C = heap s C \<and>
     module_accounting_stop env2 s1 B = Some (Returns DECLINED s2) \<and>
     (\<forall>(key, v) \<in> set (differences (begin_values env1)
          (time_of env2) (own_usage_of env2) (child_usage_of env2)).
        apr_table_get (notes (heap s2 C)) key = Some (Text (apr_psprintf_ld v))) \<and>
     heap s2 A = heap s1 A \<and> heap s2 B = heap s1 B"
proof -
  have ne: "A \<noteq> B" "A \<noteq> C" "B \<noteq> C"
    using assms by auto
  have first_C: "resolve_first (heap s) C = Some A"
    using assms by (simp add: resolve_first_def follow_None follow_Some)
  have first_B: "resolve_first (heap s) B = Some A"
    using assms by (simp add: resolve_first_def follow_None follow_Some)
  have last_B: "resolve_last (heap s) B = Some C"
    using assms by (simp add: resolve_last_def follow_None follow_Some)
  let ?s1 = "take_begin_values env1 A s"
  let ?s2 = "take_end_values env2 C (begin_values env1) ?s1"
  have 1: "module_accounting_start env1 s C = Some (Returns DECLINED ?s1)"
    using assms(10) by (simp add: start_resolved [OF first_C])
  have 2: "apr_table_get (notes (heap ?s1 A)) notes_key_internal = Some (Data (begin_values env1))"
    by (simp add: heap_take_begin_values apr_table_get_def)
  have 3: "heap ?s1 B = heap s B" "heap ?s1 C = heap s C"
    using ne by (simp_all add: heap_take_begin_values)
  have "resolve_first (heap ?s1) B = Some A" and "resolve_last (heap ?s1) B = Some C"
    using first_B last_B by (simp_all add: resolve_take_begin_values)
  from stop_resolved [OF this] 2
  have 4: "module_accounting_stop env2 ?s1 B = Some (Returns DECLINED ?s2)"
    by simp
  have 5: "\<forall>(key, v) \<in> set (differences (begin_values env1)
          (time_of env2) (own_usage_of env2) (child_usage_of env2)).
        apr_table_get (notes (heap ?s2 C)) key = Some (Text (apr_psprintf_ld v))"
    by (auto simp: heap_take_end_values apr_table_get_def map_add_def published_Some)
  have 6: "heap ?s2 A = heap ?s1 A" "heap ?s2 B = heap ?s1 B"
    using ne by (simp_all add: heap_take_end_values)
  from 1 2 3 4 5 6 show ?thesis by blast
qed

theorem chain_of_three_witness:
  "module_accounting_start env_begin chain3 30 = Some (Returns DECLINED started) \<and>
   note_after (module_accounting_start env_begin chain3 30) 10 notes_key_internal =
     Some (Data (begin_values env_begin)) \<and>
   note_after (module_accounting_stop env_end started 20) 30 notes_key_time =
     Some (Text ''2250000'') \<and>
   note_after (module_accounting_stop env_end started 20) 30 notes_key_utime =
     Some (Text ''400000'') \<and>
   note_after (module_accounting_stop env_end started 20) 30 notes_key_inblock =
     Some (Text ''0'')"
proof -
  have fresh: "apr_table_get (notes (heap chain3 10)) notes_key_internal = None"
    by (simp add: chain3_notes apr_table_get_def)
  let ?ds = "differences (begin_values env_begin)
      (time_of env_end) (own_usage_of env_end) (child_usage_of env_end)"
  from chain_of_three [OF chain3_links(1-9) fresh, of env_begin env_end]
  obtain s2 where stop: "module_accounting_stop env_end started 20 = Some (Returns DECLINED s2)"
    and pub: "\<forall>(key, v) \<in> set ?ds.
      apr_table_get (notes (heap s2 30)) key = Some (Text (apr_psprintf_ld v))"
    by (auto simp: start_chain3)
  have "(notes_key_time, 2250000) \<in> set ?ds" "(notes_key_utime, 400000) \<in> set ?ds"
    "(notes_key_inblock, 0) \<in> set ?ds"
    by (simp_all add: differences_def begin_values_def time_of_def own_usage_of_def
        env_begin_def env_end_def time_delta_examples block_delta_examples)
  with pub have "apr_table_get (notes (heap s2 30)) notes_key_time = Some (Text ''2250000'')"
    and "apr_table_get (notes (heap s2 30)) notes_key_utime = Some (Text ''400000'')"
    and "apr_table_get (notes (heap s2 30)) notes_key_inblock = Some (Text ''0'')"
    by (auto simp: apr_psprintf_ld_examples)
  then show ?thesis
    by (simp add: stop start_chain3 started_begin_values)
qed

subsection \<open>C10: what stop writes\<close>

text \<open>
  C10. When the first request holds begin values, \<open>module_accounting_stop\<close> sets each
  of the nine metric keys in the notes of the last request to the text of its
  difference; every other entry of every notes table, and every link, is as before. In
  particular the value under \<^verbatim>\<open>ACC_INTERNAL\<close> is the same on every request, and a
  second call on the same chain returns as well and publishes the nine differences
  between the same begin values and its own end values.
\<close>

theorem stop_frame:
  assumes "resolve_first (heap s) r = Some first" and "resolve_last (heap s) r = Some l"
    and "apr_table_get (notes (heap s first)) notes_key_internal = Some (Data data)"
  shows "\<exists>s1 s2.
     module_accounting_stop env1 s r = Some (Returns DECLINED s1) \<and>
     (\<forall>(key, v) \<in> set (differences data (time_of env1) (own_usage_of env1) (child_usage_of env1)).
        apr_table_get (notes (heap s1 l)) key = Some (Text (apr_psprintf_ld v))) \<and>
     (\<forall>q k. q \<noteq> l \<or> k \<notin> key_norm ` set metric_keys \<longrightarrow> notes (heap s1 q) k = notes (heap s q) k) \<and>
     (\<forall>q. main (heap s1 q) = main (heap s q) \<and> prev (heap s1 q) = prev (heap s q) \<and>
          next (heap s1 q) = next (heap s q)) \<and>
     (\<forall>q. apr_table_get (notes (heap s1 q)) notes_key_internal =
          apr_table_get (notes (heap s q)) notes_key_internal) \<and>
     module_accounting_stop env2 s1 r = Some (Returns DECLINED s2) \<and>
     (\<forall>(key, v) \<in> set (differences data (time_of env2) (own_usage_of env2) (child_usage_of env2)).
        apr_table_get (notes (heap s2 l)) key = Some (Text (apr_psprintf_ld v)))"
proof -
  let ?s1 = "take_end_values env1 l data s"
  let ?s2 = "take_end_values env2 l data ?s1"
  have vals: "\<forall>(key, v) \<in> set (differences data (time_of env) (own_usage_of env) (child_usage_of env)).
        apr_table_get (notes (heap (take_end_values env l data s') l)) key = Some (Text (apr_psprintf_ld v))"
    for env s'
    by (auto simp: heap_take_end_values apr_table_get_def map_add_def published_Some)
  have 1: "module_accounting_stop env1 s r = Some (Returns DECLINED ?s1)"
    using assms(3) by (simp add: stop_resolved [OF assms(1,2)])
  have 3: "\<forall>q k. q \<noteq> l \<or> k \<notin> key_norm ` set metric_keys \<longrightarrow>
      notes (heap ?s1 q) k = notes (heap s q) k"
    by (auto simp: heap_take_end_values map_add_def published_None)
  have 4: "\<forall>q. main (heap ?s1 q) = main (heap s q) \<and> prev (heap ?s1 q) = prev (heap s q) \<and>
          next (heap ?s1 q) = next (heap s q)"
    by (simp add: heap_take_end_values)
  have 5: "\<forall>q. apr_table_get (notes (heap ?s1 q)) notes_key_internal =
          apr_table_get (notes (heap s q)) notes_key_internal"
    by (simp add: internal_take_end_values)
  have "resolve_first (heap ?s1) r = Some first" and "resolve_last (heap ?s1) r = Some l"
    using assms(1,2) by (simp_all add: resolve_take_end_values)
  from stop_resolved [OF this] assms(3)
  have 6: "module_accounting_stop env2 ?s1 r = Some (Returns DECLINED ?s2)"
    by (simp add: internal_take_end_values)
  from 1 vals [of env1 s] 3 4 5 6 vals [of env2 ?s1] show ?thesis
    by blast
qed

theorem stop_frame_witness:
  "resolve_first (heap started) 20 = Some 10 \<and> resolve_last (heap started) 20 = Some 30 \<and>
   apr_table_get (notes (heap started 10)) notes_key_internal = Some (Data (begin_values env_begin)) \<and>
   (\<exists>s1 s2.
      module_accounting_stop env_end started 20 = Some (Returns DECLINED s1) \<and>
      apr_table_get (notes (heap s1 30)) notes_key_time = Some (Text ''2250000'') \<and>
      apr_table_get (notes (heap s1 10)) notes_key_internal = Some (Data (begin_values env_begin)) \<and>
      notes (heap s1 10) = notes (heap started 10) \<and>
      module_accounting_stop env_far s1 20 = Some (Returns DECLINED s2) \<and>
      apr_table_get (notes (heap s2 30)) notes_key_time = Some (Text ''-9223372036854551616''))"
proof -
  let ?d1 = "differences (begin_values env_begin)
      (time_of env_end) (own_usage_of env_end) (child_usage_of env_end)"
  let ?d2 = "differences (begin_values env_begin)
      (time_of env_far) (own_usage_of env_far) (child_usage_of env_far)"
  from stop_frame [OF started_resolve(1,2) started_begin_values, of env_end env_far]
  obtain s1 s2 where 1: "module_accounting_stop env_end started 20 = Some (Returns DECLINED s1)"
    and 2: "\<forall>(key, v) \<in> set ?d1.
        apr_table_get (notes (heap s1 30)) key = Some (Text (apr_psprintf_ld v))"
    and 3: "\<forall>q k. q \<noteq> 30 \<or> k \<notin> key_norm ` set metric_keys \<longrightarrow>
        notes (heap s1 q) k = notes (heap started q) k"
    and 4: "\<forall>q. apr_table_get (notes (heap s1 q)) notes_key_internal =
        apr_table_get (notes (heap started q)) notes_key_internal"
    and 5: "module_accounting_stop env_far s1 20 = Some (Returns DECLINED s2)"
    and 6: "\<forall>(key, v) \<in> set ?d2.
        apr_table_get (notes (heap s2 30)) key = Some (Text (apr_psprintf_ld v))"
    by blast
  have "(notes_key_time, 2250000) \<in> set ?d1"
    by (simp add: differences_def begin_values_def time_of_def env_begin_def env_end_def
        time_delta_examples)
  with 2 have a: "apr_table_get (notes (heap s1 30)) notes_key_time = Some (Text ''2250000'')"
    by (auto simp: apr_psprintf_ld_examples)
  have "(notes_key_time, - 9223372036854551616) \<in> set ?d2"
    by (simp add: differences_def begin_values_def time_of_def env_begin_def env_far_def
        env_end_def time_delta_examples)
  with 6 have b: "apr_table_get (notes (heap s2 30)) notes_key_time =
      Some (Text ''-9223372036854551616'')"
    by (auto simp: apr_psprintf_ld_examples)
  have c: "notes (heap s1 10) = notes (heap started 10)"
    using 3 by auto
  from 1 a 4 c 5 b show ?thesis
    by (auto simp: started_resolve started_begin_values)
qed

subsection \<open>C3: no negative value is published\<close>

text \<open>
  C3 says that a published value is never negative, for time values as soon as both
  microsecond components lie in \<open>[0, 1000000)\<close>. In 64 bits the difference of an
  ordered pair can wrap around. Begin values taken at 1000 s and end values taken at
  9223372037855 s, all microseconds 0, publish \<^verbatim>\<open>ACC_time\<close> as -9223372036854551616.
  A block counter of \<open>- 2 ^ 63\<close> in the begin values (left there by a failed
  \<^verbatim>\<open>getrusage\<close>) and a counter of 30 at the end publish \<^verbatim>\<open>ACC_inblock\<close> as
  -9223372036854775778.
\<close>

theorem stop_publishes_negative:
  "usec_ok \<lparr>tv_sec = 1000, tv_usec = 0\<rparr> \<and> usec_ok \<lparr>tv_sec = 9223372037855, tv_usec = 0\<rparr> \<and>
   note_after (module_accounting_start env_begin chain3 30) 10 notes_key_internal =
     Some (Data (begin_values env_begin)) \<and>
   begin_time (begin_values env_begin) = \<lparr>tv_sec = 1000, tv_usec = 0\<rparr> \<and>
   gettimeofday env_far = Some \<lparr>tv_sec = 9223372037855, tv_usec = 0\<rparr> \<and>
   note_after (module_accounting_stop env_far started 20) 30 notes_key_time =
     Some (Text ''-9223372036854551616'') \<and>
   note_after (module_accounting_stop env_end started_blind 20) 30 notes_key_inblock =
     Some (Text ''-9223372036854775778'')"
proof -
  have a: "usec_ok \<lparr>tv_sec = 1000, tv_usec = 0\<rparr>"
    "usec_ok \<lparr>tv_sec = 9223372037855, tv_usec = 0\<rparr>"
    by (simp_all add: usec_ok_def)
  have b: "note_after (module_accounting_start env_begin chain3 30) 10 notes_key_internal =
     Some (Data (begin_values env_begin))"
    by (simp add: start_chain3 started_begin_values)
  have c: "begin_time (begin_values env_begin) = \<lparr>tv_sec = 1000, tv_usec = 0\<rparr>"
    by (simp add: begin_values_def time_of_def env_begin_def)
  have d: "gettimeofday env_far = Some \<lparr>tv_sec = 9223372037855, tv_usec = 0\<rparr>"
    by (simp add: env_far_def)
  have "(notes_key_time, - 9223372036854551616) \<in> set (differences (begin_values env_begin)
      (time_of env_far) (own_usage_of env_far) (child_usage_of env_far))"
    by (simp add: differences_def c time_of_def d time_delta_examples)
  from note_after_stop [OF started_resolve(1,2) started_begin_values this]
  have e: "note_after (module_accounting_stop env_far started 20) 30 notes_key_time =
     Some (Text ''-9223372036854551616'')"
    by (simp only: apr_psprintf_ld_examples)
  have "(notes_key_inblock, - 9223372036854775778) \<in> set (differences (junk\<lparr>zero := 0\<rparr>)
      (time_of env_end) (own_usage_of env_end) (child_usage_of env_end))"
    by (simp add: differences_def own_usage_of_def env_end_def junk_def no_usage_def
        block_delta_examples)
  from note_after_stop [OF started_blind_resolve started_blind_begin_values this]
  have f: "note_after (module_accounting_stop env_end started_blind 20) 30 notes_key_inblock =
     Some (Text ''-9223372036854775778'')"
    by (simp only: apr_psprintf_ld_examples)
  from a b c d e f show ?thesis by (intro conjI)
qed

text \<open>
  C3, amended. Each of the nine values \<open>module_accounting_stop\<close> publishes in the
  notes of the last request is judged by its own pair of a begin value and an end
  value. When that pair is in range (for a time value: both microsecond components in
  \<open>[0, 1000000)\<close> and the difference below \<open>2 ^ 63\<close> microseconds; for a block
  counter: the difference below \<open>2 ^ 63\<close>, as it is for non-negative counters), the
  value published under its key is the decimal text of a number that is not negative,
  and the text has no minus sign, whatever the other eight pairs are.
\<close>

theorem stop_publishes_nonneg:
  assumes "resolve_first (heap s) r = Some first" and "resolve_last (heap s) r = Some l"
    and "apr_table_get (notes (heap s first)) notes_key_internal = Some (Data data)"
  shows "\<exists>s1.
     module_accounting_stop env s r = Some (Returns DECLINED s1) \<and>
     (time_pair_ok (begin_time data) (time_of env) \<longrightarrow>
        (\<exists>v. apr_table_get (notes (heap s1 l)) notes_key_time = Some (Text (apr_psprintf_ld v)) \<and>
           0 \<le> sint v \<and> hd (apr_psprintf_ld v) \<noteq> CHR ''-'')) \<and>
     (time_pair_ok (ru_utime (begin_own_usage data)) (ru_utime (own_usage_of env)) \<longrightarrow>
        (\<exists>v. apr_table_get (notes (heap s1 l)) notes_key_utime = Some (Text (apr_psprintf_ld v)) \<and>
           0 \<le> sint v \<and> hd (apr_psprintf_ld v) \<noteq> CHR ''-'')) \<and>
     (time_pair_ok (ru_stime (begin_own_usage data)) (ru_stime (own_usage_of env)) \<longrightarrow>
        (\<exists>v. apr_table_get (notes (heap s1 l)) notes_key_stime = Some (Text (apr_psprintf_ld v)) \<and>
           0 \<le> sint v \<and> hd (apr_psprintf_ld v) \<noteq> CHR ''-'')) \<and>
     (block_pair_ok (ru_inblock (begin_own_usage data)) (ru_inblock (own_usage_of env)) \<longrightarrow>
        (\<exists>v. apr_table_get (notes (heap s1 l)) notes_key_inblock = Some (Text (apr_psprintf_ld v)) \<and>
           0 \<le> sint v \<and> hd (apr_psprintf_ld v) \<noteq> CHR ''-'')) \<and>
     (block_pair_ok (ru_oublock (begin_own_usage data)) (ru_oublock (own_usage_of env)) \<longrightarrow>
        (\<exists>v. apr_table_get (notes (heap s1 l)) notes_key_oublock = Some (Text (apr_psprintf_ld v)) \<and>
           0 \<le> sint v \<and> hd (apr_psprintf_ld v) \<noteq> CHR ''-'')) \<and>
     (time_pair_ok (ru_utime (begin_child_usage data)) (ru_utime (child_usage_of env)) \<longrightarrow>
        (\<exists>v. apr_table_get (notes (heap s1 l)) notes_key_cutime = Some (Text (apr_psprintf_ld v)) \<and>
           0 \<le> sint v \<and> hd (apr_psprintf_ld v) \<noteq> CHR ''-'')) \<and>
     (time_pair_ok (ru_stime (begin_child_usage data)) (ru_stime (child_usage_of env)) \<longrightarrow>
        (\<exists>v. apr_table_get (notes (heap s1 l)) notes_key_cstime = Some (Text (apr_psprintf_ld v)) \<and>
           0 \<le> sint v \<and> hd (apr_psprintf_ld v) \<noteq> CHR ''-'')) \<and>
     (block_pair_ok (ru_inblock (begin_child_usage data)) (ru_inblock (child_usage_of env)) \<longrightarrow>
        (\<exists>v. apr_table_get (notes (heap s1 l)) notes_key_cinblock = Some (Text (apr_psprintf_ld v)) \<and>
           0 \<le> sint v \<and> hd (apr_psprintf_ld v) \<noteq> CHR ''-'')) \<and>
     (block_pair_ok (ru_oublock (begin_child_usage data)) (ru_oublock (child_usage_of env)) \<longrightarrow>
        (\<exists>v. apr_table_get (notes (heap s1 l)) notes_key_coublock = Some (Text (apr_psprintf_ld v)) \<and>
           0 \<le> sint v \<and> hd (apr_psprintf_ld v) \<noteq> CHR ''-''))"
proof -
  let ?ds = "differences data (time_of env) (own_usage_of env) (child_usage_of env)"
  let ?s1 = "take_end_values env l data s"
  have "module_accounting_stop env s r = Some (Returns DECLINED ?s1)"
    using assms(3) by (simp add: stop_resolved [OF assms(1,2)])
  moreover
  have "time_pair_ok (begin_time data) (time_of env) \<longrightarrow>
      (\<exists>v. apr_table_get (notes (heap ?s1 l)) notes_key_time = Some (Text (apr_psprintf_ld v)) \<and>
         0 \<le> sint v \<and> hd (apr_psprintf_ld v) \<noteq> CHR ''-'')"
  proof
    assume "time_pair_ok (begin_time data) (time_of env)"
    then have "0 \<le> sint (time_delta (begin_time data) (time_of env))"
      by (rule time_delta_nonneg)
    moreover have "(notes_key_time, time_delta (begin_time data) (time_of env)) \<in> set ?ds"
      by (simp add: differences_def)
    ultimately show "(\<exists>v. apr_table_get (notes (heap ?s1 l)) notes_key_time = Some (Text (apr_psprintf_ld v)) \<and>
         0 \<le> sint v \<and> hd (apr_psprintf_ld v) \<noteq> CHR ''-'')"
      by (intro nonneg_published)
  qed
  moreover
  have "time_pair_ok (ru_utime (begin_own_usage data)) (ru_utime (own_usage_of env)) \<longrightarrow>
      (\<exists>v. apr_table_get (notes (heap ?s1 l)) notes_key_utime = Some (Text (apr_psprintf_ld v)) \<and>
         0 \<le> sint v \<and> hd (apr_psprintf_ld v) \<noteq> CHR ''-'')"
  proof
    assume "time_pair_ok (ru_utime (begin_own_usage data)) (ru_utime (own_usage_of env))"
    then have "0 \<le> sint (time_delta (ru_utime (begin_own_usage data)) (ru_utime (own_usage_of env)))"
      by (rule time_delta_nonneg)
    moreover have "(notes_key_utime, time_delta (ru_utime (begin_own_usage data)) (ru_utime (own_usage_of env))) \<in> set ?ds"
      by (simp add: differences_def)
    ultimately show "(\<exists>v. apr_table_get (notes (heap ?s1 l)) notes_key_utime = Some (Text (apr_psprintf_ld v)) \<and>
         0 \<le> sint v \<and> hd (apr_psprintf_ld v) \<noteq> CHR ''-'')"
      by (intro nonneg_published)
  qed
  moreover
  have "time_pair_ok (ru_stime (begin_own_usage data)) (ru_stime (own_usage_of env)) \<longrightarrow>
      (\<exists>v. apr_table_get (notes (heap ?s1 l)) notes_key_stime = Some (Text (apr_psprintf_ld v)) \<and>
         0 \<le> sint v \<and> hd (apr_psprintf_ld v) \<noteq> CHR ''-'')"
  proof
    assume "time_pair_ok (ru_stime (begin_own_usage data)) (ru_stime (own_usage_of env))"
    then have "0 \<le> sint (time_delta (ru_stime (begin_own_usage data)) (ru_stime (own_usage_of env)))"
      by (rule time_delta_nonneg)
    moreover have "(notes_key_stime, time_delta (ru_stime (begin_own_usage data)) (ru_stime (own_usage_of env))) \<in> set ?ds"
      by (simp add: differences_def)
    ultimately show "(\<exists>v. apr_table_get (notes (heap ?s1 l)) notes_key_stime = Some (Text (apr_psprintf_ld v)) \<and>
         0 \<le> sint v \<and> hd (apr_psprintf_ld v) \<noteq> CHR ''-'')"
      by (intro nonneg_published)
  qed
  moreover
  have "block_pair_ok (ru_inblock (begin_own_usage data)) (ru_inblock (own_usage_of env)) \<longrightarrow>
      (\<exists>v. apr_table_get (notes (heap ?s1 l)) notes_key_inblock = Some (Text (apr_psprintf_ld v)) \<and>
         0 \<le> sint v \<and> hd (apr_psprintf_ld v) \<noteq> CHR ''-'')"
  proof
    assume "block_pair_ok (ru_inblock (begin_own_usage data)) (ru_inblock (own_usage_of env))"
    then have "0 \<le> sint (block_delta (ru_inblock (begin_own_usage data)) (ru_inblock (own_usage_of env)))"
      by (rule block_delta_nonneg)
    moreover have "(notes_key_inblock, block_delta (ru_inblock (begin_own_usage data)) (ru_inblock (own_usage_of env))) \<in> set ?ds"
      by (simp add: differences_def)
    ultimately show "(\<exists>v. apr_table_get (notes (heap ?s1 l)) notes_key_inblock = Some (Text (apr_psprintf_ld v)) \<and>
         0 \<le> sint v \<and> hd (apr_psprintf_ld v) \<noteq> CHR ''-'')"
      by (intro nonneg_published)
  qed
  moreover
  have "block_pair_ok (ru_oublock (begin_own_usage data)) (ru_oublock (own_usage_of env)) \<longrightarrow>
      (\<exists>v. apr_table_get (notes (heap ?s1 l)) notes_key_oublock = Some (Text (apr_psprintf_ld v)) \<and>
         0 \<le> sint v \<and> hd (apr_psprintf_ld v) \<noteq> CHR ''-'')"
  proof
    assume "block_pair_ok (ru_oublock (begin_own_usage data)) (ru_oublock (own_usage_of env))"
    then have "0 \<le> sint (block_delta (ru_oublock (begin_own_usage data)) (ru_oublock (own_usage_of env)))"
      by (rule block_delta_nonneg)
    moreover have "(notes_key_oublock, block_delta (ru_oublock (begin_own_usage data)) (ru_oublock (own_usage_of env))) \<in> set ?ds"
      by (simp add: differences_def)
    ultimately show "(\<exists>v. apr_table_get (notes (heap ?s1 l)) notes_key_oublock = Some (Text (apr_psprintf_ld v)) \<and>
         0 \<le> sint v \<and> hd (apr_psprintf_ld v) \<noteq> CHR ''-'')"
      by (intro nonneg_published)
  qed
  moreover
  have "time_pair_ok (ru_utime (begin_child_usage data)) (ru_utime (child_usage_of env)) \<longrightarrow>
      (\<exists>v. apr_table_get (notes (heap ?s1 l)) notes_key_cutime = Some (Text (apr_psprintf_ld v)) \<and>
         0 \<le> sint v \<and> hd (apr_psprintf_ld v) \<noteq> CHR ''-'')"
  proof
    assume "time_pair_ok (ru_utime (begin_child_usage data)) (ru_utime (child_usage_of env))"
    then have "0 \<le> sint (time_delta (ru_utime (begin_child_usage data)) (ru_utime (child_usage_of env)))"
      by (rule time_delta_nonneg)
    moreover have "(notes_key_cutime, time_delta (ru_utime (begin_child_usage data)) (ru_utime (child_usage_of env))) \<in> set ?ds"
      by (simp add: differences_def)
    ultimately show "(\<exists>v. apr_table_get (notes (heap ?s1 l)) notes_key_cutime = Some (Text (apr_psprintf_ld v)) \<and>
         0 \<le> sint v \<and> hd (apr_psprintf_ld v) \<noteq> CHR ''-'')"
      by (intro nonneg_published)
  qed
  moreover
  have "time_pair_ok (ru_stime (begin_child_usage data)) (ru_stime (child_usage_of env)) \<longrightarrow>
      (\<exists>v. apr_table_get (notes (heap ?s1 l)) notes_key_cstime = Some (Text (apr_psprintf_ld v)) \<and>
         0 \<le> sint v \<and> hd (apr_psprintf_ld v) \<noteq> CHR ''-'')"
  proof
    assume "time_pair_ok (ru_stime (begin_child_usage data)) (ru_stime (child_usage_of env))"
    then have "0 \<le> sint (time_delta (ru_stime (begin_child_usage data)) (ru_stime (child_usage_of env)))"
      by (rule time_delta_nonneg)
    moreover have "(notes_key_cstime, time_delta (ru_stime (begin_child_usage data)) (ru_stime (child_usage_of env))) \<in> set ?ds"
      by (simp add: differences_def)
    ultimately show "(\<exists>v. apr_table_get (notes (heap ?s1 l)) notes_key_cstime = Some (Text (apr_psprintf_ld v)) \<and>
         0 \<le> sint v \<and> hd (apr_psprintf_ld v) \<noteq> CHR ''-'')"
      by (intro nonneg_published)
  qed
  moreover
  have "block_pair_ok (ru_inblock (begin_child_usage data)) (ru_inblock (child_usage_of env)) \<longrightarrow>
      (\<exists>v. apr_table_get (notes (heap ?s1 l)) notes_key_cinblock = Some (Text (apr_psprintf_ld v)) \<and>
         0 \<le> sint v \<and> hd (apr_psprintf_ld v) \<noteq> CHR ''-'')"
  proof
    assume "block_pair_ok (ru_inblock (begin_child_usage data)) (ru_inblock (child_usage_of env))"
    then have "0 \<le> sint (block_delta (ru_inblock (begin_child_usage data)) (ru_inblock (child_usage_of env)))"
      by (rule block_delta_nonneg)
    moreover have "(notes_key_cinblock, block_delta (ru_inblock (begin_child_usage data)) (ru_inblock (child_usage_of env))) \<in> set ?ds"
      by (simp add: differences_def)
    ultimately show "(\<exists>v. apr_table_get (notes (heap ?s1 l)) notes_key_cinblock = Some (Text (apr_psprintf_ld v)) \<and>
         0 \<le> sint v \<and> hd (apr_psprintf_ld v) \<noteq> CHR ''-'')"
      by (intro nonneg_published)
  qed
  moreover
  have "block_pair_ok (ru_oublock (begin_child_usage data)) (ru_oublock (child_usage_of env)) \<longrightarrow>
      (\<exists>v. apr_table_get (notes (heap ?s1 l)) notes_key_coublock = Some (Text (apr_psprintf_ld v)) \<and>
         0 \<le> sint v \<and> hd (apr_psprintf_ld v) \<noteq> CHR ''-'')"
  proof
    assume "block_pair_ok (ru_oublock (begin_child_usage data)) (ru_oublock (child_usage_of env))"
    then have "0 \<le> sint (block_delta (ru_oublock (begin_child_usage data)) (ru_oublock (child_usage_of env)))"
      by (rule block_delta_nonneg)
    moreover have "(notes_key_coublock, block_delta (ru_oublock (begin_child_usage data)) (ru_oublock (child_usage_of env))) \<in> set ?ds"
      by (simp add: differences_def)
    ultimately show "(\<exists>v. apr_table_get (notes (heap ?s1 l)) notes_key_coublock = Some (Text (apr_psprintf_ld v)) \<and>
         0 \<le> sint v \<and> hd (apr_psprintf_ld v) \<noteq> CHR ''-'')"
      by (intro nonneg_published)
  qed
  ultimately show ?thesis by blast
qed

theorem stop_publishes_nonneg_witness:
  "time_pair_ok (begin_time (begin_values env_begin)) (time_of env_end) \<and>
   time_pair_ok (ru_utime (begin_own_usage (begin_values env_begin))) (ru_utime (own_usage_of env_end)) \<and>
   time_pair_ok (ru_stime (begin_own_usage (begin_values env_begin))) (ru_stime (own_usage_of env_end)) \<and>
   block_pair_ok (ru_inblock (begin_own_usage (begin_values env_begin))) (ru_inblock (own_usage_of env_end)) \<and>
   block_pair_ok (ru_oublock (begin_own_usage (begin_values env_begin))) (ru_oublock (own_usage_of env_end)) \<and>
   time_pair_ok (ru_utime (begin_child_usage (begin_values env_begin))) (ru_utime (child_usage_of env_end)) \<and>
   time_pair_ok (ru_stime (begin_child_usage (begin_values env_begin))) (ru_stime (child_usage_of env_end)) \<and>
   block_pair_ok (ru_inblock (begin_child_usage (begin_values env_begin))) (ru_inblock (child_usage_of env_end)) \<and>
   block_pair_ok (ru_oublock (begin_child_usage (begin_values env_begin))) (ru_oublock (child_usage_of env_end)) \<and>
   (\<exists>s1. module_accounting_stop env_end started 20 = Some (Returns DECLINED s1) \<and>
      (\<forall>key \<in> set metric_keys. \<exists>v.
         apr_table_get (notes (heap s1 30)) key = Some (Text (apr_psprintf_ld v)) \<and>
         0 \<le> sint v \<and> hd (apr_psprintf_ld v) \<noteq> CHR ''-'')) \<and>
   \<not> time_pair_ok (begin_time (begin_values env_begin)) (time_of env_far) \<and>
   time_pair_ok (ru_utime (begin_own_usage (begin_values env_begin))) (ru_utime (own_usage_of env_far)) \<and>
   (\<exists>s1. module_accounting_stop env_far started 20 = Some (Returns DECLINED s1) \<and>
      (\<exists>v. apr_table_get (notes (heap s1 30)) notes_key_utime = Some (Text (apr_psprintf_ld v)) \<and>
         0 \<le> sint v \<and> hd (apr_psprintf_ld v) \<noteq> CHR ''-''))"
proof -
  have ok: "time_pair_ok (begin_time (begin_values env_begin)) (time_of env_end) "
   "   time_pair_ok (ru_utime (begin_own_usage (begin_values env_begin))) (ru_utime (own_usage_of env_end)) "
   "   time_pair_ok (ru_stime (begin_own_usage (begin_values env_begin))) (ru_stime (own_usage_of env_end)) "
   "   block_pair_ok (ru_inblock (begin_own_usage (begin_values env_begin))) (ru_inblock (own_usage_of env_end)) "
   "   block_pair_ok (ru_oublock (begin_own_usage (begin_values env_begin))) (ru_oublock (own_usage_of env_end)) "
   "   time_pair_ok (ru_utime (begin_child_usage (begin_values env_begin))) (ru_utime (child_usage_of env_end)) "
   "   time_pair_ok (ru_stime (begin_child_usage (begin_values env_begin))) (ru_stime (child_usage_of env_end)) "
   "   block_pair_ok (ru_inblock (begin_child_usage (begin_values env_begin))) (ru_inblock (child_usage_of env_end)) "
   "   block_pair_ok (ru_oublock (begin_child_usage (begin_values env_begin))) (ru_oublock (child_usage_of env_end))"
    by (simp_all add: time_pair_ok_def block_pair_ok_def usec_ok_def exact_usec_def
        begin_values_def time_of_def own_usage_of_def child_usage_of_def env_begin_def
        env_end_def no_usage_def)
  have far: "\<not> time_pair_ok (begin_time (begin_values env_begin)) (time_of env_far)"
    "time_pair_ok (ru_utime (begin_own_usage (begin_values env_begin)))
       (ru_utime (own_usage_of env_far))"
    by (simp_all add: time_pair_ok_def usec_ok_def exact_usec_def begin_values_def time_of_def
        own_usage_of_def env_begin_def env_far_def env_end_def)
  from stop_publishes_nonneg [OF started_resolve(1,2) started_begin_values, of env_end] ok
  have 1: "\<exists>s1. module_accounting_stop env_end started 20 = Some (Returns DECLINED s1) \<and>
      (\<forall>key \<in> set metric_keys. \<exists>v.
         apr_table_get (notes (heap s1 30)) key = Some (Text (apr_psprintf_ld v)) \<and>
         0 \<le> sint v \<and> hd (apr_psprintf_ld v) \<noteq> CHR ''-'')"
    by (simp add: metric_keys_def)
  from stop_publishes_nonneg [OF started_resolve(1,2) started_begin_values, of env_far] far(2)
  have 2: "\<exists>s1. module_accounting_stop env_far started 20 = Some (Returns DECLINED s1) \<and>
      (\<exists>v. apr_table_get (notes (heap s1 30)) notes_key_utime = Some (Text (apr_psprintf_ld v)) \<and>
         0 \<le> sint v \<and> hd (apr_psprintf_ld v) \<noteq> CHR ''-'')"
    by blast
  from ok 1 far 2 show ?thesis by (intro conjI)
qed

subsection \<open>C8: a failing system query\<close>

text \<open>
  C8 says that the field of a failed query is left at its zero value. The source takes
  the block from \<^verbatim>\<open>apr_palloc\<close> and does not initialise it, so the field keeps what
  the memory held. With every query failing and memory that holds \<open>junk\<close>, the block
  stored under \<^verbatim>\<open>ACC_INTERNAL\<close> has a begin time of 7.000007 s.
\<close>

theorem start_leaves_junk:
  "gettimeofday env_fail = None \<and> getrusage_self env_fail = None \<and>
   getrusage_children env_fail = None \<and>
   note_after (module_accounting_start env_fail chain3 30) 10 notes_key_internal =
     Some (Data
       \<lparr>begin_time = \<lparr>tv_sec = 7, tv_usec = 7\<rparr>,
        begin_own_usage = no_usage\<lparr>ru_inblock := - 9223372036854775808\<rparr>,
        begin_child_usage = no_usage\<lparr>ru_oublock := 7\<rparr>,
        zero = 0\<rparr>)"
proof -
  have "note_after (module_accounting_start env_fail chain3 30) 10 notes_key_internal =
      Some (Data (junk\<lparr>zero := 0\<rparr>))"
    by (simp add: start_blind started_blind_begin_values)
  moreover have "gettimeofday env_fail = None" "getrusage_self env_fail = None"
    "getrusage_children env_fail = None"
    by (simp_all add: env_fail_def)
  ultimately show ?thesis by (simp add: junk_def)
qed

text \<open>
  C8, amended. On a chain without begin values \<open>module_accounting_start\<close> returns
  \<^verbatim>\<open>DECLINED\<close> and stores a block, whatever query fails. Each failing query appends
  its own error to the log, in the order of the queries, and the field of the block that
  the query was to fill holds what the memory of the block held before.
\<close>

theorem start_failed_queries:
  assumes "resolve_first (heap s) r = Some first"
    and "apr_table_get (notes (heap s first)) notes_key_internal = None"
  shows "\<exists>s1 data.
     module_accounting_start env s r = Some (Returns DECLINED s1) \<and>
     apr_table_get (notes (heap s1 first)) notes_key_internal = Some (Data data) \<and>
     anomalies (error_log s1) = anomalies (error_log s) @
       (if gettimeofday env = None then [Msg ''Request for (begin) time of day failed''] else []) @
       (if getrusage_self env = None then [Msg ''Request for (begin) resource usage failed'']
        else []) @
       (if getrusage_children env = None
        then [Msg ''Request for children's (begin) resource usage failed''] else []) \<and>
     (gettimeofday env = None \<longrightarrow> begin_time data = begin_time (uninit env)) \<and>
     (getrusage_self env = None \<longrightarrow> begin_own_usage data = begin_own_usage (uninit env)) \<and>
     (getrusage_children env = None \<longrightarrow> begin_child_usage data = begin_child_usage (uninit env))"
proof (intro exI conjI)
  show "module_accounting_start env s r = Some (Returns DECLINED (take_begin_values env first s))"
    using assms(2) by (simp add: start_resolved [OF assms(1)])
  show "apr_table_get (notes (heap (take_begin_values env first s) first)) notes_key_internal =
      Some (Data (begin_values env))"
    by (simp add: heap_take_begin_values apr_table_get_def)
  show "anomalies (error_log (take_begin_values env first s)) = anomalies (error_log s) @
       (if gettimeofday env = None then [Msg ''Request for (begin) time of day failed''] else []) @
       (if getrusage_self env = None then [Msg ''Request for (begin) resource usage failed'']
        else []) @
       (if getrusage_children env = None
        then [Msg ''Request for children's (begin) resource usage failed''] else [])"
    by (rule anomalies_take_begin_values)
  show "gettimeofday env = None \<longrightarrow> begin_time (begin_values env) = begin_time (uninit env)"
    by (simp add: begin_values_def time_of_def)
  show "getrusage_self env = None \<longrightarrow>
      begin_own_usage (begin_values env) = begin_own_usage (uninit env)"
    by (simp add: begin_values_def own_usage_of_def)
  show "getrusage_children env = None \<longrightarrow>
      begin_child_usage (begin_values env) = begin_child_usage (uninit env)"
    by (simp add: begin_values_def child_usage_of_def)
qed

theorem start_failed_queries_witness:
  "resolve_first (heap chain3) 30 = Some 10 \<and>
   apr_table_get (notes (heap chain3 10)) notes_key_internal = None \<and>
   gettimeofday env_fail = None \<and> getrusage_self env_fail = None \<and>
   getrusage_children env_fail = None \<and>
   (\<exists>s1 data.
      module_accounting_start env_fail chain3 30 = Some (Returns DECLINED s1) \<and>
      apr_table_get (notes (heap s1 10)) notes_key_internal = Some (Data data) \<and>
      anomalies (error_log s1) =
        [Msg ''Request for (begin) time of day failed'',
         Msg ''Request for (begin) resource usage failed'',
         Msg ''Request for children's (begin) resource usage failed''] \<and>
      begin_time data = \<lparr>tv_sec = 7, tv_usec = 7\<rparr>)"
proof -
  have fresh: "apr_table_get (notes (heap chain3 10)) notes_key_internal = None"
    by (simp add: chain3_notes apr_table_get_def)
  have fail: "gettimeofday env_fail = None" "getrusage_self env_fail = None"
    "getrusage_children env_fail = None" "begin_time (uninit env_fail) = \<lparr>tv_sec = 7, tv_usec = 7\<rparr>"
    by (simp_all add: env_fail_def junk_def)
  have "anomalies (error_log chain3) = []"
    by (simp add: chain3_def anomalies_def)
  with start_failed_queries [OF chain3_resolve(5) fresh, of env_fail] fail
  have "\<exists>s1 data.
      module_accounting_start env_fail chain3 30 = Some (Returns DECLINED s1) \<and>
      apr_table_get (notes (heap s1 10)) notes_key_internal = Some (Data data) \<and>
      anomalies (error_log s1) =
        [Msg ''Request for (begin) time of day failed'',
         Msg ''Request for (begin) resource usage failed'',
         Msg ''Request for children's (begin) resource usage failed''] \<and>
      begin_time data = \<lparr>tv_sec = 7, tv_usec = 7\<rparr>"
    by auto
  with fresh fail(1-3) chain3_resolve(5) show ?thesis by (intro conjI)
qed

end
